theory Spec2Isabelle
  imports Complex_Main
begin

section \<open>Strings as the program uses them\<close>

text \<open>
  JavaScript strings are modelled as \<^typ>\<open>string\<close>. The helpers below are the
  \<^verbatim>\<open>String.prototype\<close> methods the program calls, for the arguments it calls them with.
\<close>

fun startsWith :: "string \<Rightarrow> string \<Rightarrow> bool" where
  "startsWith s [] = True"
| "startsWith [] (p # ps) = False"
| "startsWith (c # cs) (p # ps) = (c = p \<and> startsWith cs ps)"

fun str_includes :: "string \<Rightarrow> string \<Rightarrow> bool" where
  "str_includes [] p = (p = [])"
| "str_includes (c # cs) p = (startsWith (c # cs) p \<or> str_includes cs p)"

text \<open>\<^verbatim>\<open>s.split(sep)\<close> for a one-character separator: never the empty array.\<close>

fun split :: "char \<Rightarrow> string \<Rightarrow> string list" where
  "split sep [] = [[]]"
| "split sep (c # cs) =
     (if c = sep then [] # split sep cs
      else (case split sep cs of [] \<Rightarrow> [[c]] | p # ps \<Rightarrow> (c # p) # ps))"

text \<open>\<^verbatim>\<open>xs[i]\<close>: \<^verbatim>\<open>undefined\<close> (here \<^const>\<open>None\<close>) out of range.\<close>

definition at_index :: "'a list \<Rightarrow> nat \<Rightarrow> 'a option" where
  "at_index xs i = (if i < length xs then Some (xs ! i) else None)"

text \<open>\<^verbatim>\<open>parts.join(sep)\<close>.\<close>

fun join :: "string \<Rightarrow> string list \<Rightarrow> string" where
  "join sep [] = []"
| "join sep [x] = x"
| "join sep (x # y # ys) = x @ sep @ join sep (y # ys)"

text \<open>
  \<^verbatim>\<open>a || b\<close> on a string that may be missing: the empty string and
  \<^verbatim>\<open>undefined\<close>/\<^verbatim>\<open>null\<close> are falsy.
\<close>

definition truthy :: "string option \<Rightarrow> bool" where
  "truthy v = (case v of None \<Rightarrow> False | Some s \<Rightarrow> s \<noteq> [])"

definition or_else :: "string option \<Rightarrow> string \<Rightarrow> string" where
  "or_else v d = (case v of None \<Rightarrow> d | Some s \<Rightarrow> if s = [] then d else s)"

section \<open>Video identifier resolver (\<^verbatim>\<open>extractVideoId\<close>)\<close>

text \<open>
  What the program reads from the object \<^verbatim>\<open>new URL(url)\<close>. The URL parser itself
  belongs to the platform, so it is a parameter: a function from the string to the
  object, \<^const>\<open>None\<close> when the constructor throws.
  \<^verbatim>\<open>searchParams\<close> is the decoded list of query pairs; \<^verbatim>\<open>get\<close> returns the first
  value stored under a name.
\<close>

record url_obj =
  hostname :: string
  pathname :: string
  searchParams :: "(string \<times> string) list"

text \<open>
  The fallback pattern
  \<^verbatim>\<open>/^.*((youtu.be\/)|(v\/)|(\/u\/\w\/)|(embed\/)|(watch\?))\??v?=?([^#&?]*).*/\<close>.
  It has no flags: \<^verbatim>\<open>.\<close> is any character but a line terminator, \<^verbatim>\<open>\w\<close> is
  \<^verbatim>\<open>[A-Za-z0-9_]\<close>.
\<close>

definition dot :: "char \<Rightarrow> bool" where
  "dot c = (c \<noteq> CHR 0x0A \<and> c \<noteq> CHR 0x0D)"

definition char_between :: "char \<Rightarrow> char \<Rightarrow> char \<Rightarrow> bool" where
  "char_between lo hi c = ((of_char lo :: nat) \<le> of_char c \<and> (of_char c :: nat) \<le> of_char hi)"

definition is_digit :: "char \<Rightarrow> bool" where
  "is_digit c = char_between CHR ''0'' CHR ''9'' c"

definition is_lower :: "char \<Rightarrow> bool" where
  "is_lower c = char_between CHR ''a'' CHR ''z'' c"

definition is_upper :: "char \<Rightarrow> bool" where
  "is_upper c = char_between CHR ''A'' CHR ''Z'' c"

definition word_char :: "char \<Rightarrow> bool" where
  "word_char c = (is_lower c \<or> is_upper c \<or> is_digit c \<or> c = CHR ''_'')"

text \<open>
  The five alternatives of group 1, tried in the pattern's order at the head of \<open>s\<close>;
  the result is what follows the marker.
\<close>

definition marker :: "string \<Rightarrow> string option" where
  "marker s =
     (if startsWith s ''youtu''
         \<and> (case drop 5 s of [] \<Rightarrow> False | c # r \<Rightarrow> dot c \<and> startsWith r ''be/'')
      then Some (drop 9 s)
      else if startsWith s ''v/'' then Some (drop 2 s)
      else if startsWith s ''/u/''
         \<and> (case drop 3 s of [] \<Rightarrow> False | c # r \<Rightarrow> word_char c \<and> startsWith r ''/'')
      then Some (drop 5 s)
      else if startsWith s ''embed/'' then Some (drop 6 s)
      else if startsWith s ''watch?'' then Some (drop 6 s)
      else None)"

text \<open>
  The greedy \<^verbatim>\<open>^.*\<close> first takes the whole first line and gives characters back one
  at a time: the marker is looked for at offset \<open>k\<close>, then \<open>k - 1\<close>, down to \<open>0\<close>.
\<close>

fun backtrack :: "string \<Rightarrow> nat \<Rightarrow> string option" where
  "backtrack url 0 = marker url"
| "backtrack url (Suc k) =
     (case marker (drop (Suc k) url) of
        Some r \<Rightarrow> Some r
      | None \<Rightarrow> backtrack url k)"

text \<open>A greedy optional character (\<^verbatim>\<open>\??\<close>, \<^verbatim>\<open>v?\<close>, \<^verbatim>\<open>=?\<close>).\<close>

definition optional :: "char \<Rightarrow> string \<Rightarrow> string" where
  "optional c s = (case s of [] \<Rightarrow> s | x # r \<Rightarrow> if x = c then r else s)"

text \<open>
  Nothing after group 1 can fail (every part may match the empty string and the pattern
  has no end anchor), so each greedy choice stands and group 7 is the longest run of
  characters other than \<^verbatim>\<open>#\<close>, \<^verbatim>\<open>&\<close>, \<^verbatim>\<open>?\<close>. The result is \<^verbatim>\<open>match[7]\<close>, or
  \<^const>\<open>None\<close> when \<^verbatim>\<open>url.match(regExp)\<close> is \<^verbatim>\<open>null\<close>.
\<close>

definition regExp :: "string \<Rightarrow> string option" where
  "regExp url =
     map_option
       (\<lambda>r. takeWhile (\<lambda>c. c \<noteq> CHR ''#'' \<and> c \<noteq> CHR ''&'' \<and> c \<noteq> CHR ''?'')
              (optional CHR ''='' (optional CHR ''v'' (optional CHR ''?'' r))))
       (backtrack url (length (takeWhile dot url)))"

text \<open>
  \<^verbatim>\<open>extractVideoId\<close>: a string, or \<^verbatim>\<open>null\<close>/\<^verbatim>\<open>undefined\<close> (\<^const>\<open>None\<close>). The
  \<^verbatim>\<open>catch\<close> branch runs only when \<^verbatim>\<open>new URL\<close> throws; a URL that parses but
  has another host reaches the final \<^verbatim>\<open>return null\<close>.
\<close>

definition extractVideoId :: "(string \<Rightarrow> url_obj option) \<Rightarrow> string \<Rightarrow> string option" where
  "extractVideoId parseURL url =
     (case parseURL url of
        Some urlObj \<Rightarrow>
          if hostname urlObj = ''youtu.be'' then Some (drop 1 (pathname urlObj))
          else if str_includes (hostname urlObj) ''youtube.com'' then
            (if startsWith (pathname urlObj) ''/shorts/''
             then at_index (split CHR ''/'' (pathname urlObj)) 2
             else map_of (searchParams urlObj) ''v'')
          else None
      | None \<Rightarrow>
          (case regExp url of
             None \<Rightarrow> None
           | Some m7 \<Rightarrow> if length m7 = 11 then Some m7 else None))"

section \<open>The outside world\<close>

text \<open>
  A caption item as the caption provider returns it. \<^verbatim>\<open>start\<close> is a finite number
  of seconds: every finite double is a rational, and \<^verbatim>\<open>Math.floor\<close> is exact on it.
\<close>

record caption_item =
  item_text :: string
  item_start :: rat

text \<open>
  The embed-metadata request \<^verbatim>\<open>fetch(oembedUrl)\<close> and what the handler does with the
  answer: the request itself may throw, the status may be outside 200-299, reading the
  body with \<^verbatim>\<open>.json()\<close> may throw (also: a body on which reading a property throws),
  or the body is an object whose three properties may each be missing.
\<close>

record oembed_body =
  meta_title :: "string option"
  meta_author_name :: "string option"
  meta_thumbnail_url :: "string option"

datatype oembed_outcome =
    Fetch_throws
  | Not_ok
  | Json_throws
  | Json_body oembed_body

text \<open>
  A value \<^verbatim>\<open>JSON.parse\<close> returns. An object is the list of its properties, each
  name once; numbers are finite.
\<close>

datatype json =
    JNull
  | JBool bool
  | JNum rat
  | JStr string
  | JArr "json list"
  | JObj "(string \<times> json) list"

text \<open>
  The generative-model call: it throws an error with a message, or returns a response
  whose \<^verbatim>\<open>text\<close> may be \<^verbatim>\<open>undefined\<close>.
\<close>

datatype ai_outcome =
    Ai_throws string
  | Ai_text "string option"

text \<open>
  Everything the program calls and does not define. \<open>getSubtitles\<close> takes the
  \<^verbatim>\<open>videoID\<close> and the optional \<^verbatim>\<open>lang\<close>, and is \<^const>\<open>None\<close> when the call throws;
  \<open>generateContent\<close> takes the transcript placed in the fixed prompt;
  \<open>JSON_parse\<close> is \<^const>\<open>None\<close> when \<^verbatim>\<open>JSON.parse\<close> throws; \<open>Number_toString\<close> is
  the text a number takes in a template literal.
\<close>

record env =
  parseURL :: "string \<Rightarrow> url_obj option"
  fetch :: "string \<Rightarrow> oembed_outcome"
  getSubtitles :: "string \<Rightarrow> string option \<Rightarrow> caption_item list option"
  generateContent :: "string \<Rightarrow> ai_outcome"
  JSON_parse :: "string \<Rightarrow> json option"
  Number_toString :: "rat \<Rightarrow> string"

text \<open>The remote calls a run makes, in order.\<close>

datatype call =
    Fetch string
  | GetSubtitles string "string option"

fun is_GetSubtitles :: "call \<Rightarrow> bool" where
  "is_GetSubtitles (GetSubtitles v l) = True"
| "is_GetSubtitles (Fetch u) = False"

section \<open>The endpoint \<^verbatim>\<open>POST /api/process\<close>\<close>

record request =
  req_url :: "string option"
  req_manualTranscript :: "string option"

record process_data =
  pd_title :: string
  pd_author :: string
  pd_thumbnail :: string
  pd_transcript :: string
  pd_videoId :: string

text \<open>\<^verbatim>\<open>res.json(data)\<close> answers with status 200; \<^verbatim>\<open>res.status(n).json({error})\<close> with \<open>n\<close>.\<close>

datatype response =
    Ok_json process_data
  | Error_json nat string

fun status :: "response \<Rightarrow> nat" where
  "status (Ok_json d) = 200"
| "status (Error_json n e) = n"

text \<open>Step 1 of the handler: video info through the embed-metadata lookup.\<close>

record video_metadata =
  md_title :: string
  md_author :: string
  md_thumbnail :: string

definition maxres_thumbnail :: "string \<Rightarrow> string" where
  "maxres_thumbnail videoId = ''https://img.youtube.com/vi/'' @ videoId @ ''/maxresdefault.jpg''"

definition oembedUrl :: "string \<Rightarrow> string" where
  "oembedUrl videoId =
     ''https://www.youtube.com/oembed?url=https://www.youtube.com/watch?v='' @ videoId
       @ ''&format=json''"

definition fetchMetadata :: "env \<Rightarrow> string \<Rightarrow> video_metadata \<times> call list" where
  "fetchMetadata w videoId =
     (let title = ''YouTube Video'';
          author = ''Unknown Creator'';
          thumbnail = maxres_thumbnail videoId
      in ((case fetch w (oembedUrl videoId) of
             Json_body metaData \<Rightarrow>
               \<lparr>md_title = or_else (meta_title metaData) title,
                md_author = or_else (meta_author_name metaData) author,
                md_thumbnail = or_else (meta_thumbnail_url metaData) thumbnail\<rparr>
           | _ \<Rightarrow> \<lparr>md_title = title, md_author = author, md_thumbnail = thumbnail\<rparr>),
          [Fetch (oembedUrl videoId)]))"

text \<open>
  Step 2 of the handler: the transcript. One caption item becomes the line
  \<^verbatim>\<open>[${Math.floor(item.start)}s] ${item.text}\<close>.
\<close>

definition caption_line :: "env \<Rightarrow> caption_item \<Rightarrow> string" where
  "caption_line w item =
     ''['' @ Number_toString w (of_int \<lfloor>item_start item\<rfloor>) @ ''s] '' @ item_text item"

definition fullTranscript :: "env \<Rightarrow> caption_item list \<Rightarrow> string" where
  "fullTranscript w transcriptItems = join [CHR 0x0A] (map (caption_line w) transcriptItems)"

definition manual_mode_message :: string where
  "manual_mode_message =
     ''Could not fetch transcript for this video. '' @
     ''Please try 'Manual Script' mode and paste the transcript yourself.''"

text \<open>\<^const>\<open>Inl\<close> is the message of the error thrown to the handler's outer \<^verbatim>\<open>catch\<close>.\<close>

definition acquireTranscript ::
  "env \<Rightarrow> string \<Rightarrow> string option \<Rightarrow> (string + string) \<times> call list" where
  "acquireTranscript w videoId manualTranscript =
     (if truthy manualTranscript then (Inr (or_else manualTranscript []), [])
      else
        (case getSubtitles w videoId (Some ''en'') of
           Some transcriptItems \<Rightarrow>
             (Inr (fullTranscript w transcriptItems), [GetSubtitles videoId (Some ''en'')])
         | None \<Rightarrow>
             (case getSubtitles w videoId None of
                Some transcriptItems \<Rightarrow>
                  (Inr (fullTranscript w transcriptItems),
                   [GetSubtitles videoId (Some ''en''), GetSubtitles videoId None])
              | None \<Rightarrow>
                  (Inl manual_mode_message,
                   [GetSubtitles videoId (Some ''en''), GetSubtitles videoId None]))))"

text \<open>
  The handler: the response and the remote calls made on the way. Past a truthiness
  test, \<open>or_else v []\<close> is the string that \<open>v\<close> holds.
\<close>

definition api_process :: "env \<Rightarrow> request \<Rightarrow> response \<times> call list" where
  "api_process w req =
     (if \<not> truthy (req_url req) then (Error_json 400 ''URL is required'', [])
      else
        (let videoId = extractVideoId (parseURL w) (or_else (req_url req) []) in
         if \<not> truthy videoId then (Error_json 400 ''Invalid YouTube URL'', [])
         else
           (let vid = or_else videoId [];
                (md, calls1) = fetchMetadata w vid;
                (tr, calls2) = acquireTranscript w vid (req_manualTranscript req)
            in (case tr of
                  Inr transcript \<Rightarrow>
                    (Ok_json \<lparr>pd_title = md_title md, pd_author = md_author md,
                              pd_thumbnail = md_thumbnail md, pd_transcript = transcript,
                              pd_videoId = vid\<rparr>,
                     calls1 @ calls2)
                | Inl message \<Rightarrow>
                    (Error_json 500 (or_else (Some message) ''Failed to process video''),
                     calls1 @ calls2)))))"

section \<open>The page: \<^verbatim>\<open>handleProcess\<close>\<close>

text \<open>
  The text a value takes in a template literal. An array is its elements joined by
  commas, \<^verbatim>\<open>null\<close> elements as the empty string.
\<close>

fun to_string :: "(rat \<Rightarrow> string) \<Rightarrow> json \<Rightarrow> string" where
  "to_string nts JNull = ''null''"
| "to_string nts (JBool b) = (if b then ''true'' else ''false'')"
| "to_string nts (JNum r) = nts r"
| "to_string nts (JStr s) = s"
| "to_string nts (JArr xs) = join '','' (map (\<lambda>x. if x = JNull then [] else to_string nts x) xs)"
| "to_string nts (JObj fs) = ''[object Object]''"

definition template :: "(rat \<Rightarrow> string) \<Rightarrow> json option \<Rightarrow> string" where
  "template nts v = (case v of None \<Rightarrow> ''undefined'' | Some j \<Rightarrow> to_string nts j)"

text \<open>
  \<^verbatim>\<open>step.timestamp\<close> on a value other than \<^verbatim>\<open>null\<close> (there the read throws): the
  property of an object, \<^verbatim>\<open>undefined\<close> on anything else.
\<close>

definition timestamp_of :: "json \<Rightarrow> json option" where
  "timestamp_of step = (case step of JObj fs \<Rightarrow> map_of fs ''timestamp'' | _ \<Rightarrow> None)"

text \<open>The properties \<^verbatim>\<open>{...step}\<close> copies.\<close>

definition own_props :: "(rat \<Rightarrow> string) \<Rightarrow> json \<Rightarrow> (string \<times> json) list" where
  "own_props nts step =
     (case step of
        JObj fs \<Rightarrow> fs
      | JArr xs \<Rightarrow> zip (map (\<lambda>i. nts (of_nat i)) [0..<length xs]) xs
      | JStr s \<Rightarrow> zip (map (\<lambda>i. nts (of_nat i)) [0..<length s]) (map (\<lambda>c. JStr [c]) s)
      | _ \<Rightarrow> [])"

text \<open>Writing a property of an object literal: in place when the name is there, else at the end.\<close>

fun set_prop :: "string \<Rightarrow> json \<Rightarrow> (string \<times> json) list \<Rightarrow> (string \<times> json) list" where
  "set_prop k v [] = [(k, v)]"
| "set_prop k v ((k', v') # fs) = (if k' = k then (k, v) # fs else (k', v') # set_prop k v fs)"

text \<open>The two addresses written into a step; \<open>t\<close> is the text of \<^verbatim>\<open>${step.timestamp}\<close>.\<close>

definition hq_thumbnail :: "string \<Rightarrow> string" where
  "hq_thumbnail videoId = ''https://img.youtube.com/vi/'' @ videoId @ ''/hqdefault.jpg''"

definition deep_link :: "string \<Rightarrow> string \<Rightarrow> string" where
  "deep_link videoId t = ''https://www.youtube.com/watch?v='' @ videoId @ ''&t='' @ t @ ''s''"

text \<open>
  The function mapped over \<^verbatim>\<open>result.steps\<close>; \<^const>\<open>None\<close> is the TypeError of
  reading \<^verbatim>\<open>step.timestamp\<close> on \<^verbatim>\<open>null\<close>.
\<close>

definition enrich :: "(rat \<Rightarrow> string) \<Rightarrow> string \<Rightarrow> json \<Rightarrow> json option" where
  "enrich nts videoId step =
     (if step = JNull then None
      else Some (JObj
        (set_prop ''videoUrl''
           (JStr (deep_link videoId (template nts (timestamp_of step))))
           (set_prop ''imageUrl'' (JStr (hq_thumbnail videoId)) (own_props nts step)))))"

text \<open>
  \<^verbatim>\<open>result.steps.map(...)\<close>; \<^const>\<open>None\<close> is a TypeError: \<^verbatim>\<open>result\<close> is \<^verbatim>\<open>null\<close>,
  \<^verbatim>\<open>result.steps\<close> is not an array, or a step is \<^verbatim>\<open>null\<close>.
\<close>

definition stepsWithImages :: "(rat \<Rightarrow> string) \<Rightarrow> string \<Rightarrow> json \<Rightarrow> json list option" where
  "stepsWithImages nts videoId result =
     (case result of
        JObj fs \<Rightarrow>
          (case map_of fs ''steps'' of
             Some (JArr steps) \<Rightarrow> those (map (enrich nts videoId) steps)
           | _ \<Rightarrow> None)
      | _ \<Rightarrow> None)"

record GuideData =
  guide_title :: string
  guide_author :: string
  guide_thumbnail :: string
  guide_steps :: "json list"
  guide_videoId :: string

text \<open>
  What \<^verbatim>\<open>setError(err.message)\<close> stores: the message of an error the program or a
  service raised, or the engine's own text for a TypeError.
\<close>

datatype error_message =
    Message string
  | TypeError_text

definition empty_steps_json :: string where
  "empty_steps_json = ''{'' @ [CHR 0x22] @ ''steps'' @ [CHR 0x22] @ '':[]}''"

text \<open>
  The page state the handler reads and writes (the progress bar and its caption are left
  out), as it stands once the handler and its timer have run.
\<close>

record ui_state =
  st_url :: string
  st_manualScript :: string
  st_isManual :: bool
  st_loading :: bool
  st_guide :: "GuideData option"
  st_error :: "error_message option"

text \<open>
  The body posted to the endpoint:
  \<^verbatim>\<open>{url, manualTranscript: isManual ? manualScript : undefined}\<close>.
\<close>

definition request_body :: "ui_state \<Rightarrow> request" where
  "request_body st =
     \<lparr>req_url = Some (st_url st),
      req_manualTranscript = (if st_isManual st then Some (st_manualScript st) else None)\<rparr>"

text \<open>
  The \<^verbatim>\<open>try\<close> block of \<^verbatim>\<open>handleProcess\<close>: \<^const>\<open>Inl\<close> is what reaches its
  \<^verbatim>\<open>catch\<close>, \<^const>\<open>Inr\<close> the guide handed to \<^verbatim>\<open>setGuide\<close>. The request goes to the
  endpoint above; the answer is \<^verbatim>\<open>ok\<close> exactly when it is the 200 one.
\<close>

definition runPipeline :: "env \<Rightarrow> request \<Rightarrow> error_message + GuideData" where
  "runPipeline w req =
     (case fst (api_process w req) of
        Error_json n e \<Rightarrow> Inl (Message (or_else (Some e) ''Failed to process video''))
      | Ok_json data \<Rightarrow>
          (case generateContent w (pd_transcript data) of
             Ai_throws m \<Rightarrow> Inl (Message m)
           | Ai_text text \<Rightarrow>
               (case JSON_parse w (or_else text empty_steps_json) of
                  None \<Rightarrow> Inl (Message ''Failed to parse AI response.'')
                | Some result \<Rightarrow>
                    (case stepsWithImages (Number_toString w) (pd_videoId data) result of
                       None \<Rightarrow> Inl TypeError_text
                     | Some steps \<Rightarrow>
                         Inr \<lparr>guide_title = pd_title data, guide_author = pd_author data,
                              guide_thumbnail = pd_thumbnail data, guide_steps = steps,
                              guide_videoId = pd_videoId data\<rparr>))))"

definition handleProcess :: "env \<Rightarrow> ui_state \<Rightarrow> ui_state" where
  "handleProcess w st =
     (if st_url st = [] then st
      else
        (case runPipeline w (request_body st) of
           Inr g \<Rightarrow> st\<lparr>st_loading := False, st_guide := Some g, st_error := None\<rparr>
         | Inl m \<Rightarrow> st\<lparr>st_loading := False, st_guide := None, st_error := Some m\<rparr>))"

section \<open>The document exporter: \<^verbatim>\<open>downloadPdf\<close>\<close>

text \<open>\<^verbatim>\<open>s.replace(/[...]/g, rep)\<close> for a class of single characters.\<close>

definition replace_all :: "(char \<Rightarrow> bool) \<Rightarrow> string \<Rightarrow> string \<Rightarrow> string" where
  "replace_all cls rep s = concat (map (\<lambda>c. if cls c then rep else [c]) s)"

text \<open>The class \<^verbatim>\<open>[^a-z0-9]\<close> under the flag \<^verbatim>\<open>i\<close>.\<close>

definition non_alnum :: "char \<Rightarrow> bool" where
  "non_alnum c = (\<not> (is_lower c \<or> is_upper c \<or> is_digit c))"

definition pdf_filename :: "string \<Rightarrow> string" where
  "pdf_filename title = replace_all non_alnum ''_'' title @ ''_Guide.pdf''"

text \<open>
  The name handed to \<^verbatim>\<open>pdf.save\<close>, or \<^const>\<open>None\<close> when the function returns at once
  (no mounted view, or no guide).
\<close>

definition downloadPdf :: "bool \<Rightarrow> GuideData option \<Rightarrow> string option" where
  "downloadPdf mounted guide =
     (case guide of
        None \<Rightarrow> None
      | Some g \<Rightarrow> if mounted then Some (pdf_filename (guide_title g)) else None)"

section \<open>Sample inputs\<close>

text \<open>
  \<^verbatim>\<open>new URL\<close> on the addresses the examples use; the only other string the examples
  resolve is \<^verbatim>\<open>not a url\<close>, which the constructor rejects.
\<close>

definition sample_parseURL :: "string \<Rightarrow> url_obj option" where
  "sample_parseURL s =
     (if s = ''https://youtu.be/abcdefghijk''
      then Some \<lparr>hostname = ''youtu.be'', pathname = ''/abcdefghijk'', searchParams = []\<rparr>
      else if s = ''https://youtu.be/abc''
      then Some \<lparr>hostname = ''youtu.be'', pathname = ''/abc'', searchParams = []\<rparr>
      else None)"

text \<open>
  The text of a model answer with two steps (the later moment first, and each with an
  address of the model's own), and the value \<^verbatim>\<open>JSON.parse\<close> gives for it.
\<close>

definition two_step_text :: string where
  "two_step_text =
     ''{'' @ [CHR 0x22] @ ''steps'' @ [CHR 0x22] @ '':[{'' @ [CHR 0x22] @ ''title''
       @ [CHR 0x22] @ '':'' @ [CHR 0x22] @ ''Mix'' @ [CHR 0x22] @ '','' @ [CHR 0x22]
       @ ''description'' @ [CHR 0x22] @ '':'' @ [CHR 0x22] @ ''Stir well'' @ [CHR 0x22]
       @ '','' @ [CHR 0x22] @ ''timestamp'' @ [CHR 0x22] @ '':30,'' @ [CHR 0x22]
       @ ''imageUrl'' @ [CHR 0x22] @ '':'' @ [CHR 0x22] @ ''x'' @ [CHR 0x22] @ ''},{''
       @ [CHR 0x22] @ ''title'' @ [CHR 0x22] @ '':'' @ [CHR 0x22] @ ''Intro''
       @ [CHR 0x22] @ '','' @ [CHR 0x22] @ ''description'' @ [CHR 0x22] @ '':''
       @ [CHR 0x22] @ ''Say hello'' @ [CHR 0x22] @ '','' @ [CHR 0x22] @ ''timestamp''
       @ [CHR 0x22] @ '':0,'' @ [CHR 0x22] @ ''videoUrl'' @ [CHR 0x22] @ '':''
       @ [CHR 0x22] @ ''y'' @ [CHR 0x22] @ ''}]}''"

definition two_step_json :: json where
  "two_step_json =
     JObj [(''steps'',
            JArr [JObj [(''title'', JStr ''Mix''), (''description'', JStr ''Stir well''),
                        (''timestamp'', JNum 30), (''imageUrl'', JStr ''x'')],
                  JObj [(''title'', JStr ''Intro''), (''description'', JStr ''Say hello''),
                        (''timestamp'', JNum 0), (''videoUrl'', JStr ''y'')]])]"

definition sample_JSON_parse :: "string \<Rightarrow> json option" where
  "sample_JSON_parse s =
     (if s = ''{'' @ [CHR 0x22] @ ''steps'' @ [CHR 0x22] @ '':[]}'' then Some (JObj [(''steps'', JArr [])])
      else if s = two_step_text then Some two_step_json
      else None)"

text \<open>How the numbers of the examples print; the examples print no other number.\<close>

definition sample_Number_toString :: "rat \<Rightarrow> string" where
  "sample_Number_toString r =
     (if r = 0 then ''0'' else if r = 30 then ''30'' else if r = - 1 then ''-1'' else [])"

text \<open>
  A world in which the metadata request throws, no captions can be fetched and the model
  answers without text; the examples change one service at a time.
\<close>

definition sample_env :: env where
  "sample_env =
     \<lparr>parseURL = sample_parseURL,
      fetch = (\<lambda>u. Fetch_throws),
      getSubtitles = (\<lambda>v lang. None),
      generateContent = (\<lambda>t. Ai_text None),
      JSON_parse = sample_JSON_parse,
      Number_toString = sample_Number_toString\<rparr>"

definition sample_items :: "caption_item list" where
  "sample_items =
     [\<lparr>item_text = ''Intro'', item_start = 0\<rparr>, \<lparr>item_text = ''Step one'', item_start = 61 / 2\<rparr>]"

section \<open>The specification's wording\<close>

text \<open>The file name as the specification words it: the other characters are removed.\<close>

definition stripped_filename :: "string \<Rightarrow> string" where
  "stripped_filename title =
     filter (\<lambda>c. is_lower c \<or> is_upper c \<or> is_digit c) title @ ''_Guide.pdf''"

text \<open>A property of a JSON object, and a step object as the response schema requires it.\<close>

definition obj_prop :: "json \<Rightarrow> string \<Rightarrow> json option" where
  "obj_prop j k = (case j of JObj ps \<Rightarrow> map_of ps k | _ \<Rightarrow> None)"

definition well_formed_step :: "json \<Rightarrow> bool" where
  "well_formed_step s =
     (case s of
        JObj ps \<Rightarrow>
          (case (map_of ps ''title'', map_of ps ''description'', map_of ps ''timestamp'') of
             (Some (JStr t), Some (JStr d), Some (JNum n)) \<Rightarrow> True
           | _ \<Rightarrow> False)
      | _ \<Rightarrow> False)"

text \<open>The transcript line as the specification words it: the offset cut to its integer part.\<close>

definition truncated :: "rat \<Rightarrow> int" where
  "truncated r = (if 0 \<le> r then \<lfloor>r\<rfloor> else \<lceil>r\<rceil>)"

definition annotated_line :: "env \<Rightarrow> caption_item \<Rightarrow> string" where
  "annotated_line w item =
     ''['' @ Number_toString w (of_int (truncated (item_start item))) @ ''s] '' @ item_text item"

section \<open>Facts about the endpoint\<close>

lemmas char_class_defs = non_alnum_def is_lower_def is_upper_def is_digit_def char_between_def

lemma api_process_resolved:
  assumes "req_url req = Some url" "url \<noteq> []"
      and "extractVideoId (parseURL w) url = Some vid" "vid \<noteq> []"
  shows "api_process w req =
     (case fst (acquireTranscript w vid (req_manualTranscript req)) of
        Inr t \<Rightarrow> Ok_json \<lparr>pd_title = md_title (fst (fetchMetadata w vid)),
                         pd_author = md_author (fst (fetchMetadata w vid)),
                         pd_thumbnail = md_thumbnail (fst (fetchMetadata w vid)),
                         pd_transcript = t, pd_videoId = vid\<rparr>
      | Inl m \<Rightarrow> Error_json 500 (or_else (Some m) ''Failed to process video''),
      snd (fetchMetadata w vid) @ snd (acquireTranscript w vid (req_manualTranscript req)))"
  using assms
  by (simp add: api_process_def truthy_def or_else_def Let_def split: prod.splits sum.splits)

lemma api_process_no_url:
  "req_url req = None \<or> req_url req = Some [] \<Longrightarrow>
   api_process w req = (Error_json 400 ''URL is required'', [])"
  by (auto simp: api_process_def truthy_def)

lemma api_process_unresolved:
  "req_url req = Some url \<Longrightarrow> url \<noteq> [] \<Longrightarrow>
   extractVideoId (parseURL w) url = None \<or> extractVideoId (parseURL w) url = Some [] \<Longrightarrow>
   api_process w req = (Error_json 400 ''Invalid YouTube URL'', [])"
  by (auto simp: api_process_def truthy_def or_else_def Let_def)

lemma api_process_error_status:
  "fst (api_process w req) = Error_json n e \<Longrightarrow> n = 400 \<or> n = 500"
  by (auto simp: api_process_def Let_def split: prod.splits sum.splits if_splits)

text \<open>The transcript step, by the cases of its inputs.\<close>

lemma acquireTranscript_manual:
  "m \<noteq> [] \<Longrightarrow> acquireTranscript w vid (Some m) = (Inr m, [])"
  by (simp add: acquireTranscript_def truthy_def or_else_def)

lemma acquireTranscript_remote:
  "manual = None \<or> manual = Some [] \<Longrightarrow>
   acquireTranscript w vid manual =
     (case getSubtitles w vid (Some ''en'') of
        Some items \<Rightarrow> (Inr (fullTranscript w items), [GetSubtitles vid (Some ''en'')])
      | None \<Rightarrow>
          (case getSubtitles w vid None of
             Some items \<Rightarrow>
               (Inr (fullTranscript w items),
                [GetSubtitles vid (Some ''en''), GetSubtitles vid None])
           | None \<Rightarrow>
               (Inl manual_mode_message,
                [GetSubtitles vid (Some ''en''), GetSubtitles vid None])))"
  by (auto simp: acquireTranscript_def truthy_def)

lemma manual_mode_message_nonempty: "manual_mode_message \<noteq> []"
  by (simp add: manual_mode_message_def)

lemma acquireTranscript_Inl:
  "fst (acquireTranscript w vid manual) = Inl m \<Longrightarrow> m = manual_mode_message"
  by (auto simp: acquireTranscript_def split: option.splits if_splits)

lemma fetchMetadata_calls: "snd (fetchMetadata w vid) = [Fetch (oembedUrl vid)]"
  by (simp add: fetchMetadata_def Let_def)

lemma fetchMetadata_snd: "fetchMetadata w vid = (md, c) \<Longrightarrow> c = [Fetch (oembedUrl vid)]"
  by (auto simp: fetchMetadata_def Let_def)

lemma fetchMetadata_failed:
  "fetch w (oembedUrl vid) = Fetch_throws \<or> fetch w (oembedUrl vid) = Not_ok
     \<or> fetch w (oembedUrl vid) = Json_throws \<Longrightarrow>
   fst (fetchMetadata w vid) =
     \<lparr>md_title = ''YouTube Video'', md_author = ''Unknown Creator'',
      md_thumbnail = ''https://img.youtube.com/vi/'' @ vid @ ''/maxresdefault.jpg''\<rparr>"
  by (auto simp: fetchMetadata_def maxres_thumbnail_def Let_def)

lemma floor_rat_numeral: "\<lfloor>numeral a / numeral b :: rat\<rfloor> = numeral a div numeral b"
  using floor_divide_of_int_eq [of "numeral a" "numeral b", where ?'a = rat] by simp

text \<open>The metadata service has no part in the transcript, nor in whether a run succeeds.\<close>

lemma caption_line_fetch: "caption_line (w\<lparr>fetch := f\<rparr>) = caption_line w"
  by (rule ext) (simp add: caption_line_def)

lemma acquireTranscript_fetch:
  "acquireTranscript (w\<lparr>fetch := f\<rparr>) vid m = acquireTranscript w vid m"
  by (simp add: acquireTranscript_def fullTranscript_def caption_line_fetch split: option.splits)

lemma api_process_fetch:
  "fst (api_process (w\<lparr>fetch := f\<rparr>) req) =
     (case fst (api_process w req) of
        Ok_json d \<Rightarrow>
          Ok_json (d\<lparr>pd_title := md_title (fst (fetchMetadata (w\<lparr>fetch := f\<rparr>) (pd_videoId d))),
                      pd_author := md_author (fst (fetchMetadata (w\<lparr>fetch := f\<rparr>) (pd_videoId d))),
                      pd_thumbnail :=
                        md_thumbnail (fst (fetchMetadata (w\<lparr>fetch := f\<rparr>) (pd_videoId d)))\<rparr>)
      | Error_json n e \<Rightarrow> Error_json n e)"
  by (simp add: api_process_def acquireTranscript_fetch Let_def split: prod.splits sum.splits)

lemma runPipeline_fetch:
  "isl (runPipeline (w\<lparr>fetch := f\<rparr>) req) = isl (runPipeline w req)"
  by (simp add: runPipeline_def api_process_fetch
        split: response.splits ai_outcome.splits option.splits)

lemma runPipeline_metadata:
  assumes "req_url req = Some url" "url \<noteq> []"
      and "extractVideoId (parseURL w) url = Some vid" "vid \<noteq> []"
      and "runPipeline w req = Inr g"
  shows "guide_title g = md_title (fst (fetchMetadata w vid))
       \<and> guide_author g = md_author (fst (fetchMetadata w vid))
       \<and> guide_thumbnail g = md_thumbnail (fst (fetchMetadata w vid))
       \<and> guide_videoId g = vid"
  using assms
  by (auto simp: runPipeline_def api_process_resolved
        split: response.splits ai_outcome.splits option.splits sum.splits)

text \<open>Nor has the generative model any part in the endpoint's answer.\<close>

lemma caption_line_generateContent:
  "caption_line (w\<lparr>generateContent := g\<rparr>) = caption_line w"
  by (rule ext) (simp add: caption_line_def)

lemma fetchMetadata_generateContent:
  "fetchMetadata (w\<lparr>generateContent := g\<rparr>) vid = fetchMetadata w vid"
  by (simp add: fetchMetadata_def)

lemma acquireTranscript_generateContent:
  "acquireTranscript (w\<lparr>generateContent := g\<rparr>) vid m = acquireTranscript w vid m"
  by (simp add: acquireTranscript_def fullTranscript_def caption_line_generateContent
        split: option.splits)

lemma api_process_generateContent:
  "api_process (w\<lparr>generateContent := g\<rparr>) req = api_process w req"
  by (simp add: api_process_def fetchMetadata_generateContent
        acquireTranscript_generateContent Let_def)

lemma floor_line_nonneg:
  "0 \<le> r \<Longrightarrow> \<lfloor>r\<rfloor> = truncated r"
  by (simp add: truncated_def)

lemma api_process_ok_url:
  "fst (api_process w req) = Ok_json d \<Longrightarrow> \<exists>u. req_url req = Some u \<and> u \<noteq> []"
  by (auto simp: api_process_def truthy_def split: if_splits option.splits)

text \<open>Enriching a step object.\<close>

lemma map_of_set_prop:
  "map_of (set_prop k v fs) k' = (if k' = k then Some v else map_of fs k')"
  by (induction fs) auto

lemma enrich_object:
  "enrich nts vid (JObj ps) =
     Some (JObj (set_prop ''videoUrl''
                   (JStr (deep_link vid (template nts (map_of ps ''timestamp''))))
                   (set_prop ''imageUrl'' (JStr (hq_thumbnail vid)) ps)))"
  by (simp add: enrich_def own_props_def timestamp_of_def)

lemma well_formed_step_object:
  "well_formed_step s \<Longrightarrow> \<exists>ps. s = JObj ps"
  by (auto simp: well_formed_step_def split: json.splits)

lemma those_enrich:
  "\<forall>s \<in> set ss. well_formed_step s \<Longrightarrow>
   those (map (enrich nts vid) ss) = Some (map (\<lambda>s. the (enrich nts vid s)) ss)"
proof (induction ss)
  case Nil
  then show ?case by simp
next
  case (Cons s ss)
  then obtain ps where "s = JObj ps"
    using well_formed_step_object [of s] by auto
  with Cons show ?case
    by (simp add: enrich_object)
qed

lemma enriched_props:
  assumes "well_formed_step s"
  shows "obj_prop (the (enrich nts vid s)) ''imageUrl'' = Some (JStr (hq_thumbnail vid))"
    and "obj_prop s ''timestamp'' = Some (JNum n) \<Longrightarrow>
         obj_prop (the (enrich nts vid s)) ''videoUrl'' = Some (JStr (deep_link vid (nts n)))"
    and "k \<noteq> ''imageUrl'' \<Longrightarrow> k \<noteq> ''videoUrl'' \<Longrightarrow>
         obj_prop (the (enrich nts vid s)) k = obj_prop s k"
proof -
  obtain ps where s: "s = JObj ps"
    using well_formed_step_object [OF assms] by auto
  show "obj_prop (the (enrich nts vid s)) ''imageUrl'' = Some (JStr (hq_thumbnail vid))"
    by (simp add: s enrich_object obj_prop_def map_of_set_prop)
  show "obj_prop (the (enrich nts vid s)) ''videoUrl'' = Some (JStr (deep_link vid (nts n)))"
    if "obj_prop s ''timestamp'' = Some (JNum n)"
    using that by (simp add: s enrich_object obj_prop_def map_of_set_prop template_def)
  show "obj_prop (the (enrich nts vid s)) k = obj_prop s k"
    if "k \<noteq> ''imageUrl''" "k \<noteq> ''videoUrl''"
    using that by (simp add: s enrich_object obj_prop_def map_of_set_prop)
qed

section \<open>Facts about the sample inputs\<close>

lemma sample_resolves:
  "extractVideoId sample_parseURL ''https://youtu.be/abcdefghijk'' = Some ''abcdefghijk''"
  by (simp add: extractVideoId_def sample_parseURL_def)

lemma sample_unresolved: "extractVideoId sample_parseURL ''not a url'' = None"
  by (simp add: extractVideoId_def sample_parseURL_def regExp_def marker_def dot_def)

lemma sample_metadata:
  "fetch w (oembedUrl ''abcdefghijk'') = Fetch_throws \<Longrightarrow>
   fst (fetchMetadata w ''abcdefghijk'') =
     \<lparr>md_title = ''YouTube Video'', md_author = ''Unknown Creator'',
      md_thumbnail = ''https://img.youtube.com/vi/abcdefghijk/maxresdefault.jpg''\<rparr>"
  by (simp add: fetchMetadata_def maxres_thumbnail_def Let_def)

lemma sample_transcript:
  "Number_toString w = sample_Number_toString \<Longrightarrow>
   fullTranscript w sample_items = ''[0s] Intro'' @ [CHR 0x0A] @ ''[30s] Step one''"
  by (simp add: fullTranscript_def caption_line_def sample_items_def
        sample_Number_toString_def floor_rat_numeral)

lemma sample_manual_response:
  "fetch w (oembedUrl ''abcdefghijk'') = Fetch_throws \<Longrightarrow> parseURL w = sample_parseURL \<Longrightarrow>
   fst (api_process w \<lparr>req_url = Some ''https://youtu.be/abcdefghijk'',
                        req_manualTranscript = Some ''[0s] Intro''\<rparr>)
     = Ok_json \<lparr>pd_title = ''YouTube Video'', pd_author = ''Unknown Creator'',
                pd_thumbnail = ''https://img.youtube.com/vi/abcdefghijk/maxresdefault.jpg'',
                pd_transcript = ''[0s] Intro'', pd_videoId = ''abcdefghijk''\<rparr>"
  by (simp add: api_process_resolved [where url = "''https://youtu.be/abcdefghijk''"
                  and vid = "''abcdefghijk''"]
        sample_resolves acquireTranscript_manual sample_metadata)

section \<open>The resolver and the length of the identifier\<close>

text \<open>The fallback branch only returns a token of 11 characters.\<close>

lemma extractVideoId_fallback_length:
  "parse url = None \<Longrightarrow> extractVideoId parse url = Some t \<Longrightarrow> length t = 11"
  by (auto simp: extractVideoId_def split: option.splits if_splits)

text \<open>
  C1, at the address \<^verbatim>\<open>https://youtu.be/abc\<close>: the claim is that a captured token whose
  length is not 11 makes resolution fail on every branch. On the short-link branch the
  resolver returns the three-character token \<^verbatim>\<open>abc\<close>, and the endpoint goes on to
  answer 200 with it as the video identifier.
\<close>

theorem extractVideoId_short_link_any_length:
  "extractVideoId sample_parseURL ''https://youtu.be/abc'' = Some ''abc''
   \<and> length ''abc'' \<noteq> (11::nat)
   \<and> fst (api_process (sample_env\<lparr>getSubtitles := (\<lambda>v lang. Some [])\<rparr>)
            \<lparr>req_url = Some ''https://youtu.be/abc'', req_manualTranscript = None\<rparr>)
       = Ok_json \<lparr>pd_title = ''YouTube Video'', pd_author = ''Unknown Creator'',
                  pd_thumbnail = ''https://img.youtube.com/vi/abc/maxresdefault.jpg'',
                  pd_transcript = [], pd_videoId = ''abc''\<rparr>"
  by (simp add: extractVideoId_def sample_parseURL_def api_process_def sample_env_def
        truthy_def or_else_def fetchMetadata_def acquireTranscript_def fullTranscript_def
        maxres_thumbnail_def Let_def)

section \<open>The exported file's name\<close>

lemma replace_all_char: "replace_all cls [r] s = map (\<lambda>c. if cls c then r else c) s"
  by (induction s) (simp_all add: replace_all_def)

text \<open>
  C2 as stated fails: for the title \<^verbatim>\<open>My Video\<close> the file is saved as
  \<^verbatim>\<open>My_Video_Guide.pdf\<close>, while removing the space would give \<^verbatim>\<open>MyVideo_Guide.pdf\<close>.
\<close>

theorem downloadPdf_keeps_a_place_for_each_character:
  "downloadPdf True (Some \<lparr>guide_title = ''My Video'', guide_author = [], guide_thumbnail = [],
                            guide_steps = [], guide_videoId = []\<rparr>) = Some ''My_Video_Guide.pdf''
   \<and> stripped_filename ''My Video'' = ''MyVideo_Guide.pdf''
   \<and> downloadPdf True (Some \<lparr>guide_title = ''My Video'', guide_author = [], guide_thumbnail = [],
                            guide_steps = [], guide_videoId = []\<rparr>)
       \<noteq> Some (stripped_filename ''My Video'')"
  by (simp add: downloadPdf_def pdf_filename_def replace_all_def stripped_filename_def
        char_class_defs)

text \<open>
  C2, amended: for every guide title, the exported document's file name is the title with
  every character outside \<^verbatim>\<open>A-Z\<close>, \<^verbatim>\<open>a-z\<close>, \<^verbatim>\<open>0-9\<close> replaced by one underscore
  (so the title keeps its length), followed by \<^verbatim>\<open>_Guide.pdf\<close>.
\<close>

theorem downloadPdf_filename:
  "downloadPdf True (Some g) =
     Some (map (\<lambda>c. if is_lower c \<or> is_upper c \<or> is_digit c then c else CHR ''_'')
             (guide_title g) @ ''_Guide.pdf'')"
  by (simp add: downloadPdf_def pdf_filename_def replace_all_char non_alnum_def cong: if_cong)

section \<open>The status codes of the endpoint\<close>

text \<open>
  C3 as stated fails: a request without a URL and a request whose URL cannot be resolved
  are answered with the same status code, 400.
\<close>

theorem api_process_same_status_for_missing_and_invalid_url:
  "status (fst (api_process sample_env \<lparr>req_url = None, req_manualTranscript = None\<rparr>))
     = status (fst (api_process sample_env
                      \<lparr>req_url = Some ''not a url'', req_manualTranscript = None\<rparr>))"
  by (simp add: api_process_def sample_env_def truthy_def or_else_def extractVideoId_def
        sample_parseURL_def regExp_def marker_def dot_def Let_def)

text \<open>
  C3, amended: on failure the endpoint answers with an error object and a status that is
  400 or 500. A missing (or empty) URL gives 400 with the error \<^verbatim>\<open>URL is required\<close>; a
  URL that cannot be resolved gives 400 too, with the error \<^verbatim>\<open>Invalid YouTube URL\<close>, so
  the two are told apart by the message and not by the status; an error raised while the
  request is processed gives 500 with that error's message.
\<close>

theorem api_process_failure_status:
  "(req_url req = None \<or> req_url req = Some [] \<longrightarrow>
      fst (api_process w req) = Error_json 400 ''URL is required'')
   \<and> (req_url req = Some url \<and> url \<noteq> [] \<and>
        (extractVideoId (parseURL w) url = None \<or> extractVideoId (parseURL w) url = Some []) \<longrightarrow>
      fst (api_process w req) = Error_json 400 ''Invalid YouTube URL'')
   \<and> (req_url req = Some url \<and> url \<noteq> [] \<and>
        extractVideoId (parseURL w) url = Some vid \<and> vid \<noteq> [] \<and>
        fst (acquireTranscript w vid (req_manualTranscript req)) = Inl m \<longrightarrow>
      fst (api_process w req) = Error_json 500 m)
   \<and> (\<forall>n e. fst (api_process w req) = Error_json n e \<longrightarrow> n = 400 \<or> n = 500)"
proof (intro conjI impI allI)
  assume "req_url req = None \<or> req_url req = Some []"
  then show "fst (api_process w req) = Error_json 400 ''URL is required''"
    by (simp add: api_process_no_url)
next
  assume "req_url req = Some url \<and> url \<noteq> [] \<and>
        (extractVideoId (parseURL w) url = None \<or> extractVideoId (parseURL w) url = Some [])"
  then show "fst (api_process w req) = Error_json 400 ''Invalid YouTube URL''"
    by (simp add: api_process_unresolved)
next
  assume a: "req_url req = Some url \<and> url \<noteq> [] \<and>
        extractVideoId (parseURL w) url = Some vid \<and> vid \<noteq> [] \<and>
        fst (acquireTranscript w vid (req_manualTranscript req)) = Inl m"
  then have "m = manual_mode_message"
    by (blast dest: acquireTranscript_Inl)
  with a show "fst (api_process w req) = Error_json 500 m"
    by (simp add: api_process_resolved or_else_def manual_mode_message_nonempty)
next
  fix n e
  assume "fst (api_process w req) = Error_json n e"
  then show "n = 400 \<or> n = 500"
    by (rule api_process_error_status)
qed

theorem api_process_failure_status_witness:
  "fst (api_process sample_env \<lparr>req_url = None, req_manualTranscript = None\<rparr>)
     = Error_json 400 ''URL is required''
   \<and> fst (api_process sample_env \<lparr>req_url = Some ''not a url'', req_manualTranscript = None\<rparr>)
     = Error_json 400 ''Invalid YouTube URL''
   \<and> fst (api_process sample_env
            \<lparr>req_url = Some ''https://youtu.be/abcdefghijk'', req_manualTranscript = None\<rparr>)
     = Error_json 500 manual_mode_message"
proof -
  let ?r1 = "\<lparr>req_url = None, req_manualTranscript = None\<rparr>"
  let ?r2 = "\<lparr>req_url = Some ''not a url'', req_manualTranscript = None\<rparr>"
  let ?r3 = "\<lparr>req_url = Some ''https://youtu.be/abcdefghijk'', req_manualTranscript = None\<rparr>"
  have a1: "req_url ?r1 = None \<or> req_url ?r1 = Some []"
    by simp
  have a2: "req_url ?r2 = Some ''not a url'' \<and> ''not a url'' \<noteq> [] \<and>
        (extractVideoId (parseURL sample_env) ''not a url'' = None
         \<or> extractVideoId (parseURL sample_env) ''not a url'' = Some [])"
    by (simp add: sample_env_def sample_unresolved)
  have a3: "req_url ?r3 = Some ''https://youtu.be/abcdefghijk'' \<and>
        ''https://youtu.be/abcdefghijk'' \<noteq> [] \<and>
        extractVideoId (parseURL sample_env) ''https://youtu.be/abcdefghijk'' = Some ''abcdefghijk'' \<and>
        ''abcdefghijk'' \<noteq> [] \<and>
        fst (acquireTranscript sample_env ''abcdefghijk'' (req_manualTranscript ?r3))
          = Inl manual_mode_message"
    by (simp add: sample_env_def sample_resolves acquireTranscript_remote)
  from a1 api_process_failure_status [where w = sample_env and req = ?r1]
  have c1: "fst (api_process sample_env ?r1) = Error_json 400 ''URL is required''"
    by blast
  from a2 api_process_failure_status
            [where w = sample_env and req = ?r2 and url = "''not a url''"]
  have c2: "fst (api_process sample_env ?r2) = Error_json 400 ''Invalid YouTube URL''"
    by blast
  from a3 api_process_failure_status
            [where w = sample_env and req = ?r3 and url = "''https://youtu.be/abcdefghijk''"
               and vid = "''abcdefghijk''" and m = manual_mode_message]
  have c3: "fst (api_process sample_env ?r3) = Error_json 500 manual_mode_message"
    by blast
  from c1 c2 c3 show ?thesis by blast
qed

section \<open>The transcript: manual text, two remote attempts\<close>

text \<open>
  C4: for a resolved identifier and no manual transcript, when the fetch in the preferred
  language (\<^verbatim>\<open>en\<close>) fails and the fetch without a language succeeds, the endpoint
  succeeds with the transcript of the second result; when both fail it fails with the
  error that tells the caller to use manual mode; and no run makes more than two caption
  fetches.
\<close>

theorem api_process_transcript_fallback:
  "(req_url req = Some url \<and> url \<noteq> [] \<and>
    extractVideoId (parseURL w) url = Some vid \<and> vid \<noteq> [] \<and>
    (req_manualTranscript req = None \<or> req_manualTranscript req = Some []) \<and>
    getSubtitles w vid (Some ''en'') = None \<and> getSubtitles w vid None = Some items \<longrightarrow>
      api_process w req =
        (Ok_json \<lparr>pd_title = md_title (fst (fetchMetadata w vid)),
                  pd_author = md_author (fst (fetchMetadata w vid)),
                  pd_thumbnail = md_thumbnail (fst (fetchMetadata w vid)),
                  pd_transcript = fullTranscript w items, pd_videoId = vid\<rparr>,
         [Fetch (oembedUrl vid), GetSubtitles vid (Some ''en''), GetSubtitles vid None]))
   \<and> (req_url req = Some url \<and> url \<noteq> [] \<and>
    extractVideoId (parseURL w) url = Some vid \<and> vid \<noteq> [] \<and>
    (req_manualTranscript req = None \<or> req_manualTranscript req = Some []) \<and>
    getSubtitles w vid (Some ''en'') = None \<and> getSubtitles w vid None = None \<longrightarrow>
      api_process w req =
        (Error_json 500
           (''Could not fetch transcript for this video. '' @
            ''Please try 'Manual Script' mode and paste the transcript yourself.''),
         [Fetch (oembedUrl vid), GetSubtitles vid (Some ''en''), GetSubtitles vid None]))
   \<and> length (filter is_GetSubtitles (snd (api_process w req))) \<le> 2"
proof (intro conjI impI)
  assume a: "req_url req = Some url \<and> url \<noteq> [] \<and>
    extractVideoId (parseURL w) url = Some vid \<and> vid \<noteq> [] \<and>
    (req_manualTranscript req = None \<or> req_manualTranscript req = Some []) \<and>
    getSubtitles w vid (Some ''en'') = None \<and> getSubtitles w vid None = Some items"
  then have "acquireTranscript w vid (req_manualTranscript req) =
      (Inr (fullTranscript w items), [GetSubtitles vid (Some ''en''), GetSubtitles vid None])"
    by (simp add: acquireTranscript_remote)
  with a show "api_process w req =
        (Ok_json \<lparr>pd_title = md_title (fst (fetchMetadata w vid)),
                  pd_author = md_author (fst (fetchMetadata w vid)),
                  pd_thumbnail = md_thumbnail (fst (fetchMetadata w vid)),
                  pd_transcript = fullTranscript w items, pd_videoId = vid\<rparr>,
         [Fetch (oembedUrl vid), GetSubtitles vid (Some ''en''), GetSubtitles vid None])"
    by (simp add: api_process_resolved fetchMetadata_calls)
next
  assume a: "req_url req = Some url \<and> url \<noteq> [] \<and>
    extractVideoId (parseURL w) url = Some vid \<and> vid \<noteq> [] \<and>
    (req_manualTranscript req = None \<or> req_manualTranscript req = Some []) \<and>
    getSubtitles w vid (Some ''en'') = None \<and> getSubtitles w vid None = None"
  then have "acquireTranscript w vid (req_manualTranscript req) =
      (Inl manual_mode_message, [GetSubtitles vid (Some ''en''), GetSubtitles vid None])"
    by (simp add: acquireTranscript_remote)
  with a show "api_process w req =
        (Error_json 500
           (''Could not fetch transcript for this video. '' @
            ''Please try 'Manual Script' mode and paste the transcript yourself.''),
         [Fetch (oembedUrl vid), GetSubtitles vid (Some ''en''), GetSubtitles vid None])"
    by (simp add: api_process_resolved fetchMetadata_calls or_else_def manual_mode_message_def)
next
  show "length (filter is_GetSubtitles (snd (api_process w req))) \<le> 2"
    by (auto simp: api_process_def fetchMetadata_def acquireTranscript_def Let_def
          split: prod.splits sum.splits option.splits if_splits)
qed

theorem api_process_transcript_fallback_witness:
  "api_process
      (sample_env\<lparr>getSubtitles :=
                    (\<lambda>v lang. if lang = None then Some sample_items else None)\<rparr>)
      \<lparr>req_url = Some ''https://youtu.be/abcdefghijk'', req_manualTranscript = None\<rparr>
     = (Ok_json \<lparr>pd_title = ''YouTube Video'', pd_author = ''Unknown Creator'',
                 pd_thumbnail = ''https://img.youtube.com/vi/abcdefghijk/maxresdefault.jpg'',
                 pd_transcript = ''[0s] Intro'' @ [CHR 0x0A] @ ''[30s] Step one'',
                 pd_videoId = ''abcdefghijk''\<rparr>,
        [Fetch (oembedUrl ''abcdefghijk''), GetSubtitles ''abcdefghijk'' (Some ''en''),
         GetSubtitles ''abcdefghijk'' None])
   \<and> api_process sample_env
      \<lparr>req_url = Some ''https://youtu.be/abcdefghijk'', req_manualTranscript = None\<rparr>
     = (Error_json 500 manual_mode_message,
        [Fetch (oembedUrl ''abcdefghijk''), GetSubtitles ''abcdefghijk'' (Some ''en''),
         GetSubtitles ''abcdefghijk'' None])"
proof -
  let ?w = "sample_env\<lparr>getSubtitles :=
                    (\<lambda>v lang. if lang = None then Some sample_items else None)\<rparr>"
  let ?url = "''https://youtu.be/abcdefghijk''"
  let ?vid = "''abcdefghijk''"
  let ?r = "\<lparr>req_url = Some ?url, req_manualTranscript = None\<rparr>"
  have a1: "req_url ?r = Some ?url \<and> ?url \<noteq> [] \<and>
      extractVideoId (parseURL ?w) ?url = Some ?vid \<and> ?vid \<noteq> [] \<and>
      (req_manualTranscript ?r = None \<or> req_manualTranscript ?r = Some []) \<and>
      getSubtitles ?w ?vid (Some ''en'') = None \<and> getSubtitles ?w ?vid None = Some sample_items"
    by (simp add: sample_env_def sample_resolves)
  have a2: "req_url ?r = Some ?url \<and> ?url \<noteq> [] \<and>
      extractVideoId (parseURL sample_env) ?url = Some ?vid \<and> ?vid \<noteq> [] \<and>
      (req_manualTranscript ?r = None \<or> req_manualTranscript ?r = Some []) \<and>
      getSubtitles sample_env ?vid (Some ''en'') = None \<and> getSubtitles sample_env ?vid None = None"
    by (simp add: sample_env_def sample_resolves)
  from a1 api_process_transcript_fallback
            [where w = ?w and req = ?r and url = ?url and vid = ?vid and items = sample_items]
  have c1: "api_process ?w ?r =
        (Ok_json \<lparr>pd_title = md_title (fst (fetchMetadata ?w ?vid)),
                  pd_author = md_author (fst (fetchMetadata ?w ?vid)),
                  pd_thumbnail = md_thumbnail (fst (fetchMetadata ?w ?vid)),
                  pd_transcript = fullTranscript ?w sample_items, pd_videoId = ?vid\<rparr>,
         [Fetch (oembedUrl ?vid), GetSubtitles ?vid (Some ''en''), GetSubtitles ?vid None])"
    by blast
  from a2 api_process_transcript_fallback
            [where w = sample_env and req = ?r and url = ?url and vid = ?vid]
  have c2: "api_process sample_env ?r =
        (Error_json 500
           (''Could not fetch transcript for this video. '' @
            ''Please try 'Manual Script' mode and paste the transcript yourself.''),
         [Fetch (oembedUrl ?vid), GetSubtitles ?vid (Some ''en''), GetSubtitles ?vid None])"
    by blast
  have e1: "fst (fetchMetadata ?w ?vid) =
     \<lparr>md_title = ''YouTube Video'', md_author = ''Unknown Creator'',
      md_thumbnail = ''https://img.youtube.com/vi/abcdefghijk/maxresdefault.jpg''\<rparr>"
    by (simp add: sample_metadata sample_env_def)
  have e2: "fullTranscript ?w sample_items = ''[0s] Intro'' @ [CHR 0x0A] @ ''[30s] Step one''"
    by (simp add: sample_transcript sample_env_def)
  from c1 c2 e1 e2 show ?thesis
    by (simp add: manual_mode_message_def)
qed

text \<open>
  C5: when the request carries a non-empty manual transcript, the run makes no caption
  fetch, and for a resolved identifier the transcript of the answer is the supplied text,
  unchanged; the only remote call is the metadata request.
\<close>

theorem api_process_manual_transcript:
  "req_manualTranscript req = Some m \<and> m \<noteq> [] \<longrightarrow>
     filter is_GetSubtitles (snd (api_process w req)) = []
     \<and> (req_url req = Some url \<and> url \<noteq> [] \<and>
        extractVideoId (parseURL w) url = Some vid \<and> vid \<noteq> [] \<longrightarrow>
          api_process w req =
            (Ok_json \<lparr>pd_title = md_title (fst (fetchMetadata w vid)),
                      pd_author = md_author (fst (fetchMetadata w vid)),
                      pd_thumbnail = md_thumbnail (fst (fetchMetadata w vid)),
                      pd_transcript = m, pd_videoId = vid\<rparr>,
             [Fetch (oembedUrl vid)]))"
proof (intro impI conjI)
  assume a: "req_manualTranscript req = Some m \<and> m \<noteq> []"
  then show "filter is_GetSubtitles (snd (api_process w req)) = []"
    by (auto simp: api_process_def acquireTranscript_manual Let_def
          dest!: fetchMetadata_snd split: prod.splits sum.splits)
  assume "req_url req = Some url \<and> url \<noteq> [] \<and>
        extractVideoId (parseURL w) url = Some vid \<and> vid \<noteq> []"
  with a show "api_process w req =
            (Ok_json \<lparr>pd_title = md_title (fst (fetchMetadata w vid)),
                      pd_author = md_author (fst (fetchMetadata w vid)),
                      pd_thumbnail = md_thumbnail (fst (fetchMetadata w vid)),
                      pd_transcript = m, pd_videoId = vid\<rparr>,
             [Fetch (oembedUrl vid)])"
    by (simp add: api_process_resolved acquireTranscript_manual fetchMetadata_calls)
qed

theorem api_process_manual_transcript_witness:
  "api_process (sample_env\<lparr>getSubtitles := (\<lambda>v lang. Some sample_items)\<rparr>)
      \<lparr>req_url = Some ''https://youtu.be/abcdefghijk'',
       req_manualTranscript = Some (''[5s] Hello'' @ [CHR 0x0A] @ ''[9s] Bye'')\<rparr>
     = (Ok_json \<lparr>pd_title = ''YouTube Video'', pd_author = ''Unknown Creator'',
                 pd_thumbnail = ''https://img.youtube.com/vi/abcdefghijk/maxresdefault.jpg'',
                 pd_transcript = ''[5s] Hello'' @ [CHR 0x0A] @ ''[9s] Bye'',
                 pd_videoId = ''abcdefghijk''\<rparr>,
        [Fetch (oembedUrl ''abcdefghijk'')])"
proof -
  let ?w = "sample_env\<lparr>getSubtitles := (\<lambda>v lang. Some sample_items)\<rparr>"
  let ?url = "''https://youtu.be/abcdefghijk''"
  let ?vid = "''abcdefghijk''"
  let ?m = "''[5s] Hello'' @ [CHR 0x0A] @ ''[9s] Bye''"
  let ?r = "\<lparr>req_url = Some ?url, req_manualTranscript = Some ?m\<rparr>"
  have a: "req_manualTranscript ?r = Some ?m \<and> ?m \<noteq> []"
    by simp
  have b: "req_url ?r = Some ?url \<and> ?url \<noteq> [] \<and>
        extractVideoId (parseURL ?w) ?url = Some ?vid \<and> ?vid \<noteq> []"
    by (simp add: sample_env_def sample_resolves)
  from a b api_process_manual_transcript
             [where w = ?w and req = ?r and url = ?url and vid = ?vid and m = ?m]
  have c: "api_process ?w ?r =
            (Ok_json \<lparr>pd_title = md_title (fst (fetchMetadata ?w ?vid)),
                      pd_author = md_author (fst (fetchMetadata ?w ?vid)),
                      pd_thumbnail = md_thumbnail (fst (fetchMetadata ?w ?vid)),
                      pd_transcript = ?m, pd_videoId = ?vid\<rparr>,
             [Fetch (oembedUrl ?vid)])"
    by blast
  have e: "fst (fetchMetadata ?w ?vid) =
     \<lparr>md_title = ''YouTube Video'', md_author = ''Unknown Creator'',
      md_thumbnail = ''https://img.youtube.com/vi/abcdefghijk/maxresdefault.jpg''\<rparr>"
    by (simp add: sample_metadata sample_env_def)
  from c e show ?thesis by simp
qed

section \<open>Metadata never fails a run\<close>

text \<open>
  C6: the metadata request never makes a run fail. Whatever the metadata service does, the
  endpoint's status and the success of the whole run are the same. When the request
  throws, answers with a non-success status or its body cannot be read, title, author and
  thumbnail are \<^verbatim>\<open>YouTube Video\<close>, \<^verbatim>\<open>Unknown Creator\<close> and the thumbnail address built
  from the identifier; when the body lacks a field (or holds an empty one), that field
  takes its default. A guide produced after a failed metadata request has the author
  \<^verbatim>\<open>Unknown Creator\<close>.
\<close>

theorem metadata_failure_is_not_fatal:
  "status (fst (api_process (w\<lparr>fetch := f\<rparr>) req)) = status (fst (api_process w req))
   \<and> isl (runPipeline (w\<lparr>fetch := f\<rparr>) req) = isl (runPipeline w req)
   \<and> (fetch w (oembedUrl vid) = Fetch_throws \<or> fetch w (oembedUrl vid) = Not_ok
        \<or> fetch w (oembedUrl vid) = Json_throws \<longrightarrow>
      fst (fetchMetadata w vid) =
        \<lparr>md_title = ''YouTube Video'', md_author = ''Unknown Creator'',
         md_thumbnail = ''https://img.youtube.com/vi/'' @ vid @ ''/maxresdefault.jpg''\<rparr>)
   \<and> (fetch w (oembedUrl vid) = Json_body b \<longrightarrow>
      fst (fetchMetadata w vid) =
        \<lparr>md_title = or_else (meta_title b) ''YouTube Video'',
         md_author = or_else (meta_author_name b) ''Unknown Creator'',
         md_thumbnail = or_else (meta_thumbnail_url b)
                          (''https://img.youtube.com/vi/'' @ vid @ ''/maxresdefault.jpg'')\<rparr>)
   \<and> (req_url req = Some url \<and> url \<noteq> [] \<and>
       extractVideoId (parseURL w) url = Some vid \<and> vid \<noteq> [] \<and>
       (fetch w (oembedUrl vid) = Fetch_throws \<or> fetch w (oembedUrl vid) = Not_ok
          \<or> fetch w (oembedUrl vid) = Json_throws) \<and>
       runPipeline w req = Inr g \<longrightarrow>
      guide_author g = ''Unknown Creator'' \<and> guide_title g = ''YouTube Video''
      \<and> guide_thumbnail g = ''https://img.youtube.com/vi/'' @ vid @ ''/maxresdefault.jpg'')"
proof (intro conjI impI)
  show "status (fst (api_process (w\<lparr>fetch := f\<rparr>) req)) = status (fst (api_process w req))"
    by (simp add: api_process_fetch split: response.splits)
  show "isl (runPipeline (w\<lparr>fetch := f\<rparr>) req) = isl (runPipeline w req)"
    by (rule runPipeline_fetch)
  show "fst (fetchMetadata w vid) =
        \<lparr>md_title = or_else (meta_title b) ''YouTube Video'',
         md_author = or_else (meta_author_name b) ''Unknown Creator'',
         md_thumbnail = or_else (meta_thumbnail_url b)
                          (''https://img.youtube.com/vi/'' @ vid @ ''/maxresdefault.jpg'')\<rparr>"
    if "fetch w (oembedUrl vid) = Json_body b"
    using that by (simp add: fetchMetadata_def maxres_thumbnail_def Let_def)
  show "fst (fetchMetadata w vid) =
        \<lparr>md_title = ''YouTube Video'', md_author = ''Unknown Creator'',
         md_thumbnail = ''https://img.youtube.com/vi/'' @ vid @ ''/maxresdefault.jpg''\<rparr>"
    if "fetch w (oembedUrl vid) = Fetch_throws \<or> fetch w (oembedUrl vid) = Not_ok
        \<or> fetch w (oembedUrl vid) = Json_throws"
    using that by (rule fetchMetadata_failed)
  assume a: "req_url req = Some url \<and> url \<noteq> [] \<and>
       extractVideoId (parseURL w) url = Some vid \<and> vid \<noteq> [] \<and>
       (fetch w (oembedUrl vid) = Fetch_throws \<or> fetch w (oembedUrl vid) = Not_ok
          \<or> fetch w (oembedUrl vid) = Json_throws) \<and>
       runPipeline w req = Inr g"
  then have m: "fst (fetchMetadata w vid) =
        \<lparr>md_title = ''YouTube Video'', md_author = ''Unknown Creator'',
         md_thumbnail = ''https://img.youtube.com/vi/'' @ vid @ ''/maxresdefault.jpg''\<rparr>"
    by (simp add: fetchMetadata_failed)
  from a have "guide_title g = md_title (fst (fetchMetadata w vid))
       \<and> guide_author g = md_author (fst (fetchMetadata w vid))
       \<and> guide_thumbnail g = md_thumbnail (fst (fetchMetadata w vid))
       \<and> guide_videoId g = vid"
    using runPipeline_metadata [of req url w vid g] by blast
  with m show "guide_author g = ''Unknown Creator''" "guide_title g = ''YouTube Video''"
    "guide_thumbnail g = ''https://img.youtube.com/vi/'' @ vid @ ''/maxresdefault.jpg''"
    by simp_all
qed

theorem metadata_failure_is_not_fatal_witness:
  "fst (fetchMetadata sample_env ''abcdefghijk'')
     = \<lparr>md_title = ''YouTube Video'', md_author = ''Unknown Creator'',
        md_thumbnail = ''https://img.youtube.com/vi/abcdefghijk/maxresdefault.jpg''\<rparr>
   \<and> fst (fetchMetadata
            (sample_env\<lparr>fetch := (\<lambda>u. Json_body \<lparr>meta_title = Some ''How to'',
                                                   meta_author_name = None,
                                                   meta_thumbnail_url = Some []\<rparr>)\<rparr>)
            ''abcdefghijk'')
     = \<lparr>md_title = ''How to'', md_author = ''Unknown Creator'',
        md_thumbnail = ''https://img.youtube.com/vi/abcdefghijk/maxresdefault.jpg''\<rparr>
   \<and> runPipeline sample_env
        \<lparr>req_url = Some ''https://youtu.be/abcdefghijk'',
         req_manualTranscript = Some ''[0s] Intro''\<rparr>
     = Inr \<lparr>guide_title = ''YouTube Video'', guide_author = ''Unknown Creator'',
            guide_thumbnail = ''https://img.youtube.com/vi/abcdefghijk/maxresdefault.jpg'',
            guide_steps = [], guide_videoId = ''abcdefghijk''\<rparr>"
proof -
  let ?url = "''https://youtu.be/abcdefghijk''"
  let ?vid = "''abcdefghijk''"
  let ?r = "\<lparr>req_url = Some ?url, req_manualTranscript = Some ''[0s] Intro''\<rparr>"
  let ?b = "\<lparr>meta_title = Some ''How to'', meta_author_name = None,
             meta_thumbnail_url = Some []\<rparr>"
  let ?w2 = "sample_env\<lparr>fetch := (\<lambda>u. Json_body ?b)\<rparr>"
  let ?g = "\<lparr>guide_title = ''YouTube Video'', guide_author = ''Unknown Creator'',
            guide_thumbnail = ''https://img.youtube.com/vi/abcdefghijk/maxresdefault.jpg'',
            guide_steps = [], guide_videoId = ''abcdefghijk''\<rparr>"
  have a3: "fetch sample_env (oembedUrl ?vid) = Fetch_throws
        \<or> fetch sample_env (oembedUrl ?vid) = Not_ok
        \<or> fetch sample_env (oembedUrl ?vid) = Json_throws"
    by (simp add: sample_env_def)
  have a4: "fetch ?w2 (oembedUrl ?vid) = Json_body ?b"
    by simp
  have run: "runPipeline sample_env ?r = Inr ?g"
    by (simp add: runPipeline_def sample_manual_response sample_env_def sample_JSON_parse_def
          empty_steps_json_def or_else_def stepsWithImages_def)
  have a5: "req_url ?r = Some ?url \<and> ?url \<noteq> [] \<and>
       extractVideoId (parseURL sample_env) ?url = Some ?vid \<and> ?vid \<noteq> [] \<and>
       (fetch sample_env (oembedUrl ?vid) = Fetch_throws
          \<or> fetch sample_env (oembedUrl ?vid) = Not_ok
          \<or> fetch sample_env (oembedUrl ?vid) = Json_throws) \<and>
       runPipeline sample_env ?r = Inr ?g"
    using run by (simp add: sample_env_def sample_resolves)
  note t1 = metadata_failure_is_not_fatal
              [where w = sample_env and vid = ?vid and url = ?url and req = ?r and g = ?g]
  from a3 t1 have c3: "fst (fetchMetadata sample_env ?vid) =
        \<lparr>md_title = ''YouTube Video'', md_author = ''Unknown Creator'',
         md_thumbnail = ''https://img.youtube.com/vi/'' @ ?vid @ ''/maxresdefault.jpg''\<rparr>"
    by blast
  from a5 t1 have c5: "guide_author ?g = ''Unknown Creator''"
    by blast
  from a4 metadata_failure_is_not_fatal [where w = ?w2 and vid = ?vid and b = ?b]
  have c4: "fst (fetchMetadata ?w2 ?vid) =
        \<lparr>md_title = or_else (meta_title ?b) ''YouTube Video'',
         md_author = or_else (meta_author_name ?b) ''Unknown Creator'',
         md_thumbnail = or_else (meta_thumbnail_url ?b)
                          (''https://img.youtube.com/vi/'' @ ?vid @ ''/maxresdefault.jpg'')\<rparr>"
    by blast
  from c3 c4 c5 run show ?thesis
    by (simp add: or_else_def)
qed

section \<open>From the model's answer to the guide\<close>

text \<open>
  C7: when the model's answer parses to an object whose \<^verbatim>\<open>steps\<close> is an array of \<open>N\<close>
  well-formed step objects, the guide has exactly \<open>N\<close> steps, in the order of the answer:
  step \<open>i\<close> keeps every property of answer step \<open>i\<close> except \<^verbatim>\<open>imageUrl\<close> and
  \<^verbatim>\<open>videoUrl\<close>. Its \<^verbatim>\<open>imageUrl\<close> is
  \<^verbatim>\<open>https://img.youtube.com/vi/<identifier>/hqdefault.jpg\<close> and its \<^verbatim>\<open>videoUrl\<close> is
  \<^verbatim>\<open>https://www.youtube.com/watch?v=<identifier>&t=<timestamp>s\<close>, whatever the answer
  held under those names.
\<close>

theorem guide_steps_enriched_in_order:
  assumes "fst (api_process w req) = Ok_json data"
      and "generateContent w (pd_transcript data) = Ai_text (Some t)" and "t \<noteq> []"
      and "JSON_parse w t = Some (JObj fs)" and "map_of fs ''steps'' = Some (JArr ss)"
      and "\<forall>s \<in> set ss. well_formed_step s"
  shows "\<exists>steps.
      runPipeline w req =
        Inr \<lparr>guide_title = pd_title data, guide_author = pd_author data,
             guide_thumbnail = pd_thumbnail data, guide_steps = steps,
             guide_videoId = pd_videoId data\<rparr>
      \<and> length steps = length ss
      \<and> (\<forall>i < length ss.
            obj_prop (steps ! i) ''imageUrl''
              = Some (JStr (''https://img.youtube.com/vi/'' @ pd_videoId data
                              @ ''/hqdefault.jpg''))
          \<and> (\<forall>n. obj_prop (ss ! i) ''timestamp'' = Some (JNum n) \<longrightarrow>
                obj_prop (steps ! i) ''videoUrl''
                  = Some (JStr (''https://www.youtube.com/watch?v='' @ pd_videoId data
                                  @ ''&t='' @ Number_toString w n @ ''s'')))
          \<and> (\<forall>k. k \<noteq> ''imageUrl'' \<and> k \<noteq> ''videoUrl'' \<longrightarrow>
                obj_prop (steps ! i) k = obj_prop (ss ! i) k))"
proof -
  let ?steps = "map (\<lambda>s. the (enrich (Number_toString w) (pd_videoId data) s)) ss"
  have "stepsWithImages (Number_toString w) (pd_videoId data) (JObj fs) = Some ?steps"
    using assms(5,6) by (simp add: stepsWithImages_def those_enrich)
  with assms(1-4) have run: "runPipeline w req =
        Inr \<lparr>guide_title = pd_title data, guide_author = pd_author data,
             guide_thumbnail = pd_thumbnail data, guide_steps = ?steps,
             guide_videoId = pd_videoId data\<rparr>"
    by (simp add: runPipeline_def or_else_def)
  have "obj_prop (?steps ! i) ''imageUrl''
              = Some (JStr (''https://img.youtube.com/vi/'' @ pd_videoId data
                              @ ''/hqdefault.jpg''))
          \<and> (\<forall>n. obj_prop (ss ! i) ''timestamp'' = Some (JNum n) \<longrightarrow>
                obj_prop (?steps ! i) ''videoUrl''
                  = Some (JStr (''https://www.youtube.com/watch?v='' @ pd_videoId data
                                  @ ''&t='' @ Number_toString w n @ ''s'')))
          \<and> (\<forall>k. k \<noteq> ''imageUrl'' \<and> k \<noteq> ''videoUrl'' \<longrightarrow>
                obj_prop (?steps ! i) k = obj_prop (ss ! i) k)"
    if "i < length ss" for i
  proof -
    from that assms(6) have "well_formed_step (ss ! i)" by simp
    with that show ?thesis
      by (simp add: enriched_props hq_thumbnail_def deep_link_def)
  qed
  with run show ?thesis by auto
qed

theorem guide_steps_enriched_in_order_witness:
  "\<exists>steps.
     runPipeline (sample_env\<lparr>generateContent := (\<lambda>t. Ai_text (Some two_step_text))\<rparr>)
        \<lparr>req_url = Some ''https://youtu.be/abcdefghijk'',
         req_manualTranscript = Some ''[0s] Intro''\<rparr>
       = Inr \<lparr>guide_title = ''YouTube Video'', guide_author = ''Unknown Creator'',
              guide_thumbnail = ''https://img.youtube.com/vi/abcdefghijk/maxresdefault.jpg'',
              guide_steps = steps, guide_videoId = ''abcdefghijk''\<rparr>
     \<and> length steps = 2
     \<and> obj_prop (steps ! 0) ''title'' = Some (JStr ''Mix'')
     \<and> obj_prop (steps ! 0) ''timestamp'' = Some (JNum 30)
     \<and> obj_prop (steps ! 0) ''imageUrl''
         = Some (JStr ''https://img.youtube.com/vi/abcdefghijk/hqdefault.jpg'')
     \<and> obj_prop (steps ! 0) ''videoUrl''
         = Some (JStr ''https://www.youtube.com/watch?v=abcdefghijk&t=30s'')
     \<and> obj_prop (steps ! 1) ''title'' = Some (JStr ''Intro'')
     \<and> obj_prop (steps ! 1) ''timestamp'' = Some (JNum 0)
     \<and> obj_prop (steps ! 1) ''imageUrl''
         = Some (JStr ''https://img.youtube.com/vi/abcdefghijk/hqdefault.jpg'')
     \<and> obj_prop (steps ! 1) ''videoUrl''
         = Some (JStr ''https://www.youtube.com/watch?v=abcdefghijk&t=0s'')"
proof -
  let ?w = "sample_env\<lparr>generateContent := (\<lambda>t. Ai_text (Some two_step_text))\<rparr>"
  let ?r = "\<lparr>req_url = Some ''https://youtu.be/abcdefghijk'',
             req_manualTranscript = Some ''[0s] Intro''\<rparr>"
  let ?data = "\<lparr>pd_title = ''YouTube Video'', pd_author = ''Unknown Creator'',
                 pd_thumbnail = ''https://img.youtube.com/vi/abcdefghijk/maxresdefault.jpg'',
                 pd_transcript = ''[0s] Intro'', pd_videoId = ''abcdefghijk''\<rparr>"
  let ?s0 = "JObj [(''title'', JStr ''Mix''), (''description'', JStr ''Stir well''),
                   (''timestamp'', JNum 30), (''imageUrl'', JStr ''x'')]"
  let ?s1 = "JObj [(''title'', JStr ''Intro''), (''description'', JStr ''Say hello''),
                   (''timestamp'', JNum 0), (''videoUrl'', JStr ''y'')]"
  let ?fs = "[(''steps'', JArr [?s0, ?s1])]"
  have h1: "fst (api_process ?w ?r) = Ok_json ?data"
    by (simp add: sample_manual_response sample_env_def)
  have h2: "generateContent ?w (pd_transcript ?data) = Ai_text (Some two_step_text)"
    by simp
  have h3: "two_step_text \<noteq> []"
    by (simp add: two_step_text_def)
  have h4: "JSON_parse ?w two_step_text = Some (JObj ?fs)"
    by (simp add: sample_env_def sample_JSON_parse_def two_step_json_def two_step_text_def)
  have h5: "map_of ?fs ''steps'' = Some (JArr [?s0, ?s1])"
    by simp
  have h6: "\<forall>s \<in> set [?s0, ?s1]. well_formed_step s"
    by (simp add: well_formed_step_def)
  from guide_steps_enriched_in_order [OF h1 h2 h3 h4 h5 h6]
  obtain steps where
    run: "runPipeline ?w ?r =
        Inr \<lparr>guide_title = pd_title ?data, guide_author = pd_author ?data,
             guide_thumbnail = pd_thumbnail ?data, guide_steps = steps,
             guide_videoId = pd_videoId ?data\<rparr>"
    and len: "length steps = length [?s0, ?s1]"
    and props: "\<forall>i < length [?s0, ?s1].
            obj_prop (steps ! i) ''imageUrl''
              = Some (JStr (''https://img.youtube.com/vi/'' @ pd_videoId ?data
                              @ ''/hqdefault.jpg''))
          \<and> (\<forall>n. obj_prop ([?s0, ?s1] ! i) ''timestamp'' = Some (JNum n) \<longrightarrow>
                obj_prop (steps ! i) ''videoUrl''
                  = Some (JStr (''https://www.youtube.com/watch?v='' @ pd_videoId ?data
                                  @ ''&t='' @ Number_toString ?w n @ ''s'')))
          \<and> (\<forall>k. k \<noteq> ''imageUrl'' \<and> k \<noteq> ''videoUrl'' \<longrightarrow>
                obj_prop (steps ! i) k = obj_prop ([?s0, ?s1] ! i) k)"
    by blast
  have nts: "Number_toString ?w 30 = ''30''" "Number_toString ?w 0 = ''0''"
    by (simp_all add: sample_env_def sample_Number_toString_def)
  from props have p0:
    "obj_prop (steps ! 0) ''imageUrl''
       = Some (JStr (''https://img.youtube.com/vi/'' @ ''abcdefghijk'' @ ''/hqdefault.jpg''))"
    "obj_prop ?s0 ''timestamp'' = Some (JNum 30) \<longrightarrow>
       obj_prop (steps ! 0) ''videoUrl''
         = Some (JStr (''https://www.youtube.com/watch?v='' @ ''abcdefghijk''
                         @ ''&t='' @ Number_toString ?w 30 @ ''s''))"
    "obj_prop (steps ! 0) ''title'' = obj_prop ?s0 ''title''"
    "obj_prop (steps ! 0) ''timestamp'' = obj_prop ?s0 ''timestamp''"
    by simp_all
  from props have p1:
    "obj_prop (steps ! 1) ''imageUrl''
       = Some (JStr (''https://img.youtube.com/vi/'' @ ''abcdefghijk'' @ ''/hqdefault.jpg''))"
    "obj_prop ?s1 ''timestamp'' = Some (JNum 0) \<longrightarrow>
       obj_prop (steps ! 1) ''videoUrl''
         = Some (JStr (''https://www.youtube.com/watch?v='' @ ''abcdefghijk''
                         @ ''&t='' @ Number_toString ?w 0 @ ''s''))"
    "obj_prop (steps ! 1) ''title'' = obj_prop ?s1 ''title''"
    "obj_prop (steps ! 1) ''timestamp'' = obj_prop ?s1 ''timestamp''"
    by simp_all
  from p0 p1 nts have
    "obj_prop (steps ! 0) ''title'' = Some (JStr ''Mix'')"
    "obj_prop (steps ! 0) ''timestamp'' = Some (JNum 30)"
    "obj_prop (steps ! 0) ''imageUrl''
       = Some (JStr ''https://img.youtube.com/vi/abcdefghijk/hqdefault.jpg'')"
    "obj_prop (steps ! 0) ''videoUrl''
       = Some (JStr ''https://www.youtube.com/watch?v=abcdefghijk&t=30s'')"
    "obj_prop (steps ! 1) ''title'' = Some (JStr ''Intro'')"
    "obj_prop (steps ! 1) ''timestamp'' = Some (JNum 0)"
    "obj_prop (steps ! 1) ''imageUrl''
       = Some (JStr ''https://img.youtube.com/vi/abcdefghijk/hqdefault.jpg'')"
    "obj_prop (steps ! 1) ''videoUrl''
       = Some (JStr ''https://www.youtube.com/watch?v=abcdefghijk&t=0s'')"
    by (simp_all add: obj_prop_def)
  with run len show ?thesis by simp
qed



text \<open>
  C10: when the model's answer has no text, or an empty one, the run does not fail. It is
  the run in which the model had answered with the text \<^verbatim>\<open>{"steps":[]}\<close>: that text
  is parsed in place of the missing one, and (\<^verbatim>\<open>JSON.parse\<close> reading it as an object
  with an empty \<^verbatim>\<open>steps\<close> array) the page gets a guide with no steps and no error.
\<close>

theorem empty_answer_gives_empty_guide:
  assumes "fst (api_process w req) = Ok_json data"
      and "generateContent w (pd_transcript data) = Ai_text reply"
      and "reply = None \<or> reply = Some []"
      and "JSON_parse w (''{'' @ [CHR 0x22] @ ''steps'' @ [CHR 0x22] @ '':[]}'')
             = Some (JObj [(''steps'', JArr [])])"
  shows "runPipeline w req =
           runPipeline
             (w\<lparr>generateContent :=
                  (\<lambda>t. Ai_text (Some (''{'' @ [CHR 0x22] @ ''steps'' @ [CHR 0x22] @ '':[]}'')))\<rparr>)
             req
       \<and> runPipeline w req =
           Inr \<lparr>guide_title = pd_title data, guide_author = pd_author data,
                guide_thumbnail = pd_thumbnail data, guide_steps = [],
                guide_videoId = pd_videoId data\<rparr>
       \<and> (request_body st = req \<longrightarrow>
            st_guide (handleProcess w st) =
              Some \<lparr>guide_title = pd_title data, guide_author = pd_author data,
                    guide_thumbnail = pd_thumbnail data, guide_steps = [],
                    guide_videoId = pd_videoId data\<rparr>
          \<and> st_error (handleProcess w st) = None)"
proof (intro conjI impI)
  let ?lit = "''{'' @ [CHR 0x22] @ ''steps'' @ [CHR 0x22] @ '':[]}''"
  from assms(3) have sub: "or_else reply empty_steps_json = ?lit"
    by (auto simp: or_else_def empty_steps_json_def)
  have same: "or_else (Some ?lit) empty_steps_json = ?lit"
    by (simp add: or_else_def)
  from assms(1,2) sub same
  show "runPipeline w req =
          runPipeline (w\<lparr>generateContent := (\<lambda>t. Ai_text (Some ?lit))\<rparr>) req"
    by (simp add: runPipeline_def api_process_generateContent split: option.splits)
  from assms sub show run: "runPipeline w req =
           Inr \<lparr>guide_title = pd_title data, guide_author = pd_author data,
                guide_thumbnail = pd_thumbnail data, guide_steps = [],
                guide_videoId = pd_videoId data\<rparr>"
    by (simp add: runPipeline_def stepsWithImages_def)
  assume b: "request_body st = req"
  with assms(1) have "st_url st \<noteq> []"
    using api_process_ok_url [of w req data] by (auto simp: request_body_def)
  with run b show "st_guide (handleProcess w st) =
              Some \<lparr>guide_title = pd_title data, guide_author = pd_author data,
                    guide_thumbnail = pd_thumbnail data, guide_steps = [],
                    guide_videoId = pd_videoId data\<rparr>"
    and "st_error (handleProcess w st) = None"
    by (simp_all add: handleProcess_def)
qed

theorem empty_answer_gives_empty_guide_witness:
  "sample_JSON_parse (''{'' @ [CHR 0x22] @ ''steps'' @ [CHR 0x22] @ '':[]}'')
     = Some (JObj [(''steps'', JArr [])])
   \<and> sample_JSON_parse [] = None
   \<and> st_guide (handleProcess (sample_env\<lparr>generateContent := (\<lambda>t. Ai_text (Some []))\<rparr>)
      \<lparr>st_url = ''https://youtu.be/abcdefghijk'', st_manualScript = ''[0s] Intro'',
       st_isManual = True, st_loading = True, st_guide = None,
       st_error = Some (Message ''earlier'')\<rparr>)
     = Some \<lparr>guide_title = ''YouTube Video'', guide_author = ''Unknown Creator'',
            guide_thumbnail = ''https://img.youtube.com/vi/abcdefghijk/maxresdefault.jpg'',
            guide_steps = [], guide_videoId = ''abcdefghijk''\<rparr>
   \<and> st_error (handleProcess (sample_env\<lparr>generateContent := (\<lambda>t. Ai_text (Some []))\<rparr>)
      \<lparr>st_url = ''https://youtu.be/abcdefghijk'', st_manualScript = ''[0s] Intro'',
       st_isManual = True, st_loading = True, st_guide = None,
       st_error = Some (Message ''earlier'')\<rparr>) = None"
proof -
  let ?w = "sample_env\<lparr>generateContent := (\<lambda>t. Ai_text (Some []))\<rparr>"
  let ?r = "\<lparr>req_url = Some ''https://youtu.be/abcdefghijk'',
             req_manualTranscript = Some ''[0s] Intro''\<rparr>"
  let ?data = "\<lparr>pd_title = ''YouTube Video'', pd_author = ''Unknown Creator'',
                 pd_thumbnail = ''https://img.youtube.com/vi/abcdefghijk/maxresdefault.jpg'',
                 pd_transcript = ''[0s] Intro'', pd_videoId = ''abcdefghijk''\<rparr>"
  let ?st = "\<lparr>st_url = ''https://youtu.be/abcdefghijk'', st_manualScript = ''[0s] Intro'',
       st_isManual = True, st_loading = True, st_guide = None,
       st_error = Some (Message ''earlier'')\<rparr>"
  have p1: "sample_JSON_parse (''{'' @ [CHR 0x22] @ ''steps'' @ [CHR 0x22] @ '':[]}'')
              = Some (JObj [(''steps'', JArr [])])"
    and p2: "sample_JSON_parse [] = None"
    by (simp_all add: sample_JSON_parse_def two_step_text_def)
  have h1: "fst (api_process ?w ?r) = Ok_json ?data"
    by (simp add: sample_manual_response sample_env_def)
  have h2: "generateContent ?w (pd_transcript ?data) = Ai_text (Some [])"
    by simp
  have h3: "Some [] = None \<or> Some [] = Some ([] :: string)"
    by simp
  have h4: "JSON_parse ?w (''{'' @ [CHR 0x22] @ ''steps'' @ [CHR 0x22] @ '':[]}'')
              = Some (JObj [(''steps'', JArr [])])"
    using p1 by (simp add: sample_env_def)
  have b: "request_body ?st = ?r"
    by (simp add: request_body_def)
  from b empty_answer_gives_empty_guide [OF h1 h2 h3 h4, where st = ?st]
  have "st_guide (handleProcess ?w ?st) =
              Some \<lparr>guide_title = pd_title ?data, guide_author = pd_author ?data,
                    guide_thumbnail = pd_thumbnail ?data, guide_steps = [],
                    guide_videoId = pd_videoId ?data\<rparr>
          \<and> st_error (handleProcess ?w ?st) = None"
    by blast
  with p1 p2 show ?thesis by simp
qed

section \<open>The transcript text\<close>

text \<open>
  C9 as stated fails: for a caption item that starts at \<open>-1/2\<close> the line handed on is
  \<^verbatim>\<open>[-1s] a\<close>, while the offset cut to its integer part would give \<^verbatim>\<open>[0s] a\<close>.
\<close>

theorem transcript_offset_is_rounded_down:
  "fst (api_process
          (sample_env\<lparr>getSubtitles :=
                        (\<lambda>v lang. Some [\<lparr>item_text = ''a'', item_start = - (1 / 2)\<rparr>])\<rparr>)
          \<lparr>req_url = Some ''https://youtu.be/abcdefghijk'', req_manualTranscript = None\<rparr>)
     = Ok_json \<lparr>pd_title = ''YouTube Video'', pd_author = ''Unknown Creator'',
                pd_thumbnail = ''https://img.youtube.com/vi/abcdefghijk/maxresdefault.jpg'',
                pd_transcript = ''[-1s] a'', pd_videoId = ''abcdefghijk''\<rparr>
   \<and> join [CHR 0x0A]
        (map (annotated_line
                (sample_env\<lparr>getSubtitles :=
                        (\<lambda>v lang. Some [\<lparr>item_text = ''a'', item_start = - (1 / 2)\<rparr>])\<rparr>))
           [\<lparr>item_text = ''a'', item_start = - (1 / 2)\<rparr>])
     = ''[0s] a''
   \<and> ''[-1s] a'' \<noteq> ''[0s] a''"
proof -
  let ?item = "\<lparr>item_text = ''a'', item_start = - (1 / 2)\<rparr>"
  let ?w = "sample_env\<lparr>getSubtitles := (\<lambda>v lang. Some [?item])\<rparr>"
  let ?r = "\<lparr>req_url = Some ''https://youtu.be/abcdefghijk'', req_manualTranscript = None\<rparr>"
  have fl: "\<lfloor>- (1 / 2) :: rat\<rfloor> = - 1"
    by (simp add: floor_eq_iff)
  have ce: "\<lceil>- (1 / 2) :: rat\<rceil> = 0"
    by (simp add: ceiling_eq_iff)
  have "fullTranscript ?w [?item] = ''[-1s] a''"
    by (simp add: fullTranscript_def caption_line_def fl sample_env_def
          sample_Number_toString_def)
  moreover have "extractVideoId (parseURL ?w) ''https://youtu.be/abcdefghijk''
                   = Some ''abcdefghijk''"
    by (simp add: sample_env_def sample_resolves)
  moreover have "fst (fetchMetadata ?w ''abcdefghijk'') =
     \<lparr>md_title = ''YouTube Video'', md_author = ''Unknown Creator'',
      md_thumbnail = ''https://img.youtube.com/vi/abcdefghijk/maxresdefault.jpg''\<rparr>"
    by (simp add: sample_metadata sample_env_def)
  ultimately have "fst (api_process ?w ?r)
     = Ok_json \<lparr>pd_title = ''YouTube Video'', pd_author = ''Unknown Creator'',
                pd_thumbnail = ''https://img.youtube.com/vi/abcdefghijk/maxresdefault.jpg'',
                pd_transcript = ''[-1s] a'', pd_videoId = ''abcdefghijk''\<rparr>"
    by (simp add: api_process_resolved [where url = "''https://youtu.be/abcdefghijk''"
                    and vid = "''abcdefghijk''"] acquireTranscript_remote)
  moreover have "join [CHR 0x0A] (map (annotated_line ?w) [?item]) = ''[0s] a''"
    by (simp add: annotated_line_def truncated_def ce sample_env_def
          sample_Number_toString_def)
  ultimately show ?thesis by simp
qed

text \<open>
  C9, amended: when a remote fetch succeeds (the first, or the second after the first
  failed), the transcript handed on is the items' lines joined by newlines, in the items'
  order, the line of an item being \<^verbatim>\<open>[Ns] text\<close> with \<open>N\<close> the offset rounded down to
  an integer (\<^verbatim>\<open>Math.floor\<close>); for an offset that is not negative that is the offset cut
  to its integer part.
\<close>

theorem transcript_is_floored_lines:
  assumes "req_url req = Some url" and "url \<noteq> []"
      and "extractVideoId (parseURL w) url = Some vid" and "vid \<noteq> []"
      and "req_manualTranscript req = None \<or> req_manualTranscript req = Some []"
      and "getSubtitles w vid (Some ''en'') = Some items
           \<or> (getSubtitles w vid (Some ''en'') = None \<and> getSubtitles w vid None = Some items)"
  shows "fst (api_process w req) =
           Ok_json \<lparr>pd_title = md_title (fst (fetchMetadata w vid)),
                    pd_author = md_author (fst (fetchMetadata w vid)),
                    pd_thumbnail = md_thumbnail (fst (fetchMetadata w vid)),
                    pd_transcript =
                      join [CHR 0x0A]
                        (map (\<lambda>item. ''['' @ Number_toString w (of_int \<lfloor>item_start item\<rfloor>) @ ''s] ''
                                   @ item_text item)
                           items),
                    pd_videoId = vid\<rparr>
       \<and> (\<forall>item \<in> set items. 0 \<le> item_start item \<longrightarrow>
             \<lfloor>item_start item\<rfloor> = truncated (item_start item))"
proof (intro conjI ballI impI)
  have "caption_line w = (\<lambda>item. ''['' @ Number_toString w (of_int \<lfloor>item_start item\<rfloor>) @ ''s] ''
                                   @ item_text item)"
    by (rule ext) (simp add: caption_line_def)
  then have "fullTranscript w items =
      join [CHR 0x0A]
        (map (\<lambda>item. ''['' @ Number_toString w (of_int \<lfloor>item_start item\<rfloor>) @ ''s] ''
                                   @ item_text item)
           items)"
    by (simp only: fullTranscript_def)
  moreover from assms(5,6) have
    "fst (acquireTranscript w vid (req_manualTranscript req)) = Inr (fullTranscript w items)"
    by (auto simp: acquireTranscript_remote)
  ultimately show "fst (api_process w req) =
           Ok_json \<lparr>pd_title = md_title (fst (fetchMetadata w vid)),
                    pd_author = md_author (fst (fetchMetadata w vid)),
                    pd_thumbnail = md_thumbnail (fst (fetchMetadata w vid)),
                    pd_transcript =
                      join [CHR 0x0A]
                        (map (\<lambda>item. ''['' @ Number_toString w (of_int \<lfloor>item_start item\<rfloor>) @ ''s] ''
                                   @ item_text item)
                           items),
                    pd_videoId = vid\<rparr>"
    using assms(1-4) by (simp add: api_process_resolved)
next
  fix item
  assume "0 \<le> item_start item"
  then show "\<lfloor>item_start item\<rfloor> = truncated (item_start item)"
    by (rule floor_line_nonneg)
qed

theorem transcript_is_floored_lines_witness:
  "fst (api_process
          (sample_env\<lparr>getSubtitles :=
                        (\<lambda>v lang. if lang = Some ''en'' then Some sample_items else None)\<rparr>)
          \<lparr>req_url = Some ''https://youtu.be/abcdefghijk'', req_manualTranscript = Some []\<rparr>)
     = Ok_json \<lparr>pd_title = ''YouTube Video'', pd_author = ''Unknown Creator'',
                pd_thumbnail = ''https://img.youtube.com/vi/abcdefghijk/maxresdefault.jpg'',
                pd_transcript = ''[0s] Intro'' @ [CHR 0x0A] @ ''[30s] Step one'',
                pd_videoId = ''abcdefghijk''\<rparr>
   \<and> fst (api_process
          (sample_env\<lparr>getSubtitles :=
                        (\<lambda>v lang. if lang = None
                                   then Some [\<lparr>item_text = ''b'', item_start = 61 / 2\<rparr>,
                                              \<lparr>item_text = ''a'', item_start = - (1 / 2)\<rparr>]
                                   else None)\<rparr>)
          \<lparr>req_url = Some ''https://youtu.be/abcdefghijk'', req_manualTranscript = None\<rparr>)
     = Ok_json \<lparr>pd_title = ''YouTube Video'', pd_author = ''Unknown Creator'',
                pd_thumbnail = ''https://img.youtube.com/vi/abcdefghijk/maxresdefault.jpg'',
                pd_transcript = ''[30s] b'' @ [CHR 0x0A] @ ''[-1s] a'',
                pd_videoId = ''abcdefghijk''\<rparr>"
proof -
  let ?url = "''https://youtu.be/abcdefghijk''"
  let ?vid = "''abcdefghijk''"
  let ?w1 = "sample_env\<lparr>getSubtitles :=
                        (\<lambda>v lang. if lang = Some ''en'' then Some sample_items else None)\<rparr>"
  let ?r1 = "\<lparr>req_url = Some ?url, req_manualTranscript = Some []\<rparr>"
  let ?items2 = "[\<lparr>item_text = ''b'', item_start = 61 / 2\<rparr>,
                  \<lparr>item_text = ''a'', item_start = - (1 / 2)\<rparr>]"
  let ?w2 = "sample_env\<lparr>getSubtitles :=
                        (\<lambda>v lang. if lang = None then Some ?items2 else None)\<rparr>"
  let ?r2 = "\<lparr>req_url = Some ?url, req_manualTranscript = None\<rparr>"
  have fl: "\<lfloor>- (1 / 2) :: rat\<rfloor> = - 1"
    by (simp add: floor_eq_iff)
  have g1: "req_url ?r1 = Some ?url" and g2: "?url \<noteq> []" and g4: "?vid \<noteq> []"
    and k1: "req_url ?r2 = Some ?url"
    by simp_all
  have g3: "extractVideoId (parseURL ?w1) ?url = Some ?vid"
    and k3: "extractVideoId (parseURL ?w2) ?url = Some ?vid"
    by (simp_all add: sample_env_def sample_resolves)
  have g5: "req_manualTranscript ?r1 = None \<or> req_manualTranscript ?r1 = Some []"
    and k5: "req_manualTranscript ?r2 = None \<or> req_manualTranscript ?r2 = Some []"
    by simp_all
  have g6: "getSubtitles ?w1 ?vid (Some ''en'') = Some sample_items
           \<or> (getSubtitles ?w1 ?vid (Some ''en'') = None
               \<and> getSubtitles ?w1 ?vid None = Some sample_items)"
    by simp
  have k6: "getSubtitles ?w2 ?vid (Some ''en'') = Some ?items2
           \<or> (getSubtitles ?w2 ?vid (Some ''en'') = None
               \<and> getSubtitles ?w2 ?vid None = Some ?items2)"
    by simp
  have e1: "fst (fetchMetadata ?w1 ?vid) =
     \<lparr>md_title = ''YouTube Video'', md_author = ''Unknown Creator'',
      md_thumbnail = ''https://img.youtube.com/vi/abcdefghijk/maxresdefault.jpg''\<rparr>"
    and e2: "fst (fetchMetadata ?w2 ?vid) =
     \<lparr>md_title = ''YouTube Video'', md_author = ''Unknown Creator'',
      md_thumbnail = ''https://img.youtube.com/vi/abcdefghijk/maxresdefault.jpg''\<rparr>"
    by (simp_all add: sample_metadata sample_env_def)
  have n: "Number_toString ?w1 = sample_Number_toString"
    "Number_toString ?w2 = sample_Number_toString"
    by (simp_all add: sample_env_def)
  from transcript_is_floored_lines [OF g1 g2 g3 g4 g5 g6] e1 n
  have c1: "fst (api_process ?w1 ?r1)
     = Ok_json \<lparr>pd_title = ''YouTube Video'', pd_author = ''Unknown Creator'',
                pd_thumbnail = ''https://img.youtube.com/vi/abcdefghijk/maxresdefault.jpg'',
                pd_transcript = ''[0s] Intro'' @ [CHR 0x0A] @ ''[30s] Step one'',
                pd_videoId = ''abcdefghijk''\<rparr>"
    by (simp add: sample_items_def sample_Number_toString_def floor_rat_numeral)
  from transcript_is_floored_lines [OF k1 g2 k3 g4 k5 k6] e2 n
  have c2: "fst (api_process ?w2 ?r2)
     = Ok_json \<lparr>pd_title = ''YouTube Video'', pd_author = ''Unknown Creator'',
                pd_thumbnail = ''https://img.youtube.com/vi/abcdefghijk/maxresdefault.jpg'',
                pd_transcript = ''[30s] b'' @ [CHR 0x0A] @ ''[-1s] a'',
                pd_videoId = ''abcdefghijk''\<rparr>"
    by (simp add: sample_Number_toString_def floor_rat_numeral fl)
  from c1 c2 show ?thesis by blast
qed

end
